theory Spec2Isabelle
  imports Complex_Main "HOL-Library.AList"
begin

section \<open>JavaScript values\<close>

text \<open>
  A JavaScript number is a finite binary64 value, one of the two infinities, or NaN. A
  finite value is held as the real number it denotes; the sign of zero is not modelled.
\<close>

datatype jsnum = Fin real | PInf | NInf | NaN

text \<open>
  The values a row, a property read or a parsed JSON body can be. An object is the list of
  its own properties, in insertion order, with unique keys. No value is a function.
\<close>

datatype jsval =
    Undefined
  | Null
  | Bool bool
  | Num jsnum
  | Str string
  | Arr "jsval list"
  | Obj "(string \<times> jsval) list"

datatype error = TypeError | NetworkError | SyntaxError

text \<open>\<open>Number.isFinite\<close> on a number.\<close>

fun isFinite :: "jsnum \<Rightarrow> bool" where
  "isFinite (Fin x) = True"
| "isFinite PInf = False"
| "isFinite NInf = False"
| "isFinite NaN = False"

text \<open>\<open>a ?? b\<close>: the right operand replaces \<open>undefined\<close> and \<open>null\<close> only.\<close>

fun nullish :: "jsval \<Rightarrow> bool" where
  "nullish Undefined = True"
| "nullish Null = True"
| "nullish v = False"

definition coalesce :: "jsval \<Rightarrow> jsval \<Rightarrow> jsval" where
  "coalesce a b = (if nullish a then b else a)"

text \<open>
  \<open>Array.prototype.join\<close> with the separator \<open>","\<close>, on the converted elements: the first
  conversion that throws ends it.
\<close>

fun joinStrings :: "(error + string) list \<Rightarrow> error + string" where
  "joinStrings [] = Inr []"
| "joinStrings [x] = x"
| "joinStrings (x # y # ys) =
     (case x of
        Inl e \<Rightarrow> Inl e
      | Inr s \<Rightarrow> (case joinStrings (y # ys) of Inl e \<Rightarrow> Inl e | Inr t \<Rightarrow> Inr (s @ '','' @ t)))"

text \<open>
  \<open>String(v)\<close> and the interpolation \<open>`${v}`\<close>; \<open>Inl TypeError\<close> is the exception it throws. A
  string is itself. The printing of the other primitive values (\<open>undefined\<close>, \<open>null\<close>, the
  booleans and the numbers) belongs to the runtime, never throws, and is the parameter
  \<open>shw\<close>. An array is converted by the inherited \<open>join\<close>, which prints \<open>undefined\<close> and
  \<open>null\<close> elements as the empty string. An object parsed from JSON is converted by its
  \<open>toString\<close> and then its \<open>valueOf\<close>: an own property \<open>toString\<close> is never callable and is
  passed over, the inherited \<open>valueOf\<close> returns the object itself, and the conversion throws;
  without an own \<open>toString\<close> the inherited one prints \<open>[object Object]\<close>.
\<close>

fun String :: "(jsval \<Rightarrow> string) \<Rightarrow> jsval \<Rightarrow> error + string" where
  "String shw (Str s) = Inr s"
| "String shw (Arr xs) =
     joinStrings (map (\<lambda>x. if nullish x then Inr [] else String shw x) xs)"
| "String shw (Obj kvs) =
     (if ''toString'' \<in> fst ` set kvs then Inl TypeError else Inr ''[object Object]'')"
| "String shw v = Inr (shw v)"

text \<open>
  \<open>Number(v)\<close>. The fixed cases of the language: \<open>Number(undefined)\<close> is NaN, \<open>Number(null)\<close>
  is 0, \<open>Number(true)\<close> is 1. The reading of a string as a number (the numeric-literal
  grammar) belongs to the runtime, never throws, and is the parameter \<open>conv\<close>. An array or
  object is first converted to a primitive: the inherited \<open>valueOf\<close> returns the object
  itself, so the primitive is the string of \<open>String(v)\<close>, or the conversion throws as it
  does there.
\<close>

fun Number :: "(jsval \<Rightarrow> jsnum) \<Rightarrow> (jsval \<Rightarrow> string) \<Rightarrow> jsval \<Rightarrow> error + jsnum" where
  "Number conv shw Undefined = Inr NaN"
| "Number conv shw Null = Inr (Fin 0)"
| "Number conv shw (Bool b) = Inr (Fin (if b then 1 else 0))"
| "Number conv shw (Num n) = Inr n"
| "Number conv shw (Str s) = Inr (conv (Str s))"
| "Number conv shw (Arr xs) =
     (case String shw (Arr xs) of Inl e \<Rightarrow> Inl e | Inr s \<Rightarrow> Inr (conv (Str s)))"
| "Number conv shw (Obj kvs) =
     (case String shw (Obj kvs) of Inl e \<Rightarrow> Inl e | Inr s \<Rightarrow> Inr (conv (Str s)))"

text \<open>
  \<open>row.k\<close> on a parsed JSON object, for a key \<open>k\<close> that \<open>Object.prototype\<close> does not define
  (every key read by \<open>normalizeRow\<close> is such a key): the own property, else \<open>undefined\<close>.
\<close>

definition getProp :: "(string \<times> jsval) list \<Rightarrow> string \<Rightarrow> jsval" where
  "getProp kvs k = (case map_of kvs k of Some v \<Rightarrow> v | None \<Rightarrow> Undefined)"

section \<open>Row normalizer\<close>

text \<open>
  The objects \<open>{lat, lon}\<close> given to the geometry functions, \<open>{lat, lon, ts}\<close> stored in a
  trajectory, and \<open>{id, lat, lon, ts}\<close> returned by \<open>normalizeRow\<close>. Their numbers have passed
  \<open>Number.isFinite\<close>, or are a difference of integers, and are held as reals.
\<close>

record latlon =
  lat :: real
  lon :: real

record point = latlon +
  ts :: real

record idpoint = point +
  pid :: string

text \<open>The template \<open>`b${rowIndex}`\<close>.\<close>

definition synthId :: "(jsval \<Rightarrow> string) \<Rightarrow> nat \<Rightarrow> string" where
  "synthId shw rowIndex = ''b'' @ shw (Num (Fin (real rowIndex)))"

text \<open>\<open>Math.floor(Date.now() / 1000) - hourIndex * 3600\<close>, with \<open>now\<close> the floored clock.\<close>

definition synthTs :: "int \<Rightarrow> nat \<Rightarrow> real" where
  "synthTs now hourIndex = real_of_int now - real hourIndex * 3600"

text \<open>
  The right-hand sides of the \<open>const\<close> lines of the keyed branch: the id chain
  \<open>row.id ?? row.balloon_id ?? row.identifier ?? row.name ?? row.ID ?? `b${rowIndex}`\<close>, the
  coordinates \<open>Number(row.lat ?? row.latitude)\<close> and \<open>Number(row.lon ?? row.lng ?? row.longitude)\<close>,
  and \<open>tsRaw = row.ts ?? row.timestamp ?? row.time ?? null\<close>.
\<close>

definition rowId :: "(jsval \<Rightarrow> string) \<Rightarrow> (string \<times> jsval) list \<Rightarrow> nat \<Rightarrow> jsval" where
  "rowId shw row rowIndex =
     coalesce (getProp row ''id'') (coalesce (getProp row ''balloon_id'')
       (coalesce (getProp row ''identifier'') (coalesce (getProp row ''name'')
         (coalesce (getProp row ''ID'') (Str (synthId shw rowIndex))))))"

definition rowLat ::
  "(jsval \<Rightarrow> jsnum) \<Rightarrow> (jsval \<Rightarrow> string) \<Rightarrow> (string \<times> jsval) list \<Rightarrow> error + jsnum"
where
  "rowLat conv shw row =
     Number conv shw (coalesce (getProp row ''lat'') (getProp row ''latitude''))"

definition rowLon ::
  "(jsval \<Rightarrow> jsnum) \<Rightarrow> (jsval \<Rightarrow> string) \<Rightarrow> (string \<times> jsval) list \<Rightarrow> error + jsnum"
where
  "rowLon conv shw row =
     Number conv shw (coalesce (getProp row ''lon'')
       (coalesce (getProp row ''lng'') (getProp row ''longitude'')))"

definition tsRaw :: "(string \<times> jsval) list \<Rightarrow> jsval" where
  "tsRaw row =
     coalesce (getProp row ''ts'') (coalesce (getProp row ''timestamp'')
       (coalesce (getProp row ''time'') Null))"

text \<open>
  \<open>Number.isFinite(Number(tsRaw)) ? Number(tsRaw) : Math.floor(Date.now() / 1000) - hourIndex * 3600\<close>.
\<close>

definition rowTs ::
  "(jsval \<Rightarrow> jsnum) \<Rightarrow> (jsval \<Rightarrow> string) \<Rightarrow> int \<Rightarrow> (string \<times> jsval) list \<Rightarrow> nat \<Rightarrow>
   error + real"
where
  "rowTs conv shw now row hourIndex =
     (case Number conv shw (tsRaw row) of
        Inl e \<Rightarrow> Inl e
      | Inr (Fin t) \<Rightarrow> Inr t
      | Inr PInf \<Rightarrow> Inr (synthTs now hourIndex)
      | Inr NInf \<Rightarrow> Inr (synthTs now hourIndex)
      | Inr NaN \<Rightarrow> Inr (synthTs now hourIndex))"

text \<open>
  \<open>normalizeRow(row, hourIndex, rowIndex)\<close>: \<open>Inr None\<close> is the \<open>null\<close> it returns for a
  rejected row, \<open>Inl TypeError\<close> the exception of a conversion, in the order in which the
  source converts: latitude, longitude, timestamp, and the id once the coordinates are
  finite. The first equation is the keyed record (an object that is not null and not an
  array), the second the positional row, accepted from length 2 on. The two finiteness
  tests are the only tests made on the coordinates.
\<close>

fun normalizeRow ::
  "(jsval \<Rightarrow> jsnum) \<Rightarrow> (jsval \<Rightarrow> string) \<Rightarrow> int \<Rightarrow> jsval \<Rightarrow> nat \<Rightarrow> nat \<Rightarrow>
   error + idpoint option"
where
  "normalizeRow conv shw now (Obj row) hourIndex rowIndex =
     (case rowLat conv shw row of
        Inl e \<Rightarrow> Inl e
      | Inr la \<Rightarrow>
     (case rowLon conv shw row of
        Inl e \<Rightarrow> Inl e
      | Inr lo \<Rightarrow>
     (case rowTs conv shw now row hourIndex of
        Inl e \<Rightarrow> Inl e
      | Inr t \<Rightarrow>
     (case (la, lo) of
        (Fin x, Fin y) \<Rightarrow>
          (case String shw (rowId shw row rowIndex) of
             Inl e \<Rightarrow> Inl e
           | Inr s \<Rightarrow> Inr (Some \<lparr>lat = x, lon = y, ts = t, pid = s\<rparr>))
      | _ \<Rightarrow> Inr None))))"
| "normalizeRow conv shw now (Arr row) hourIndex rowIndex =
     (if length row \<ge> 2 then
        (case Number conv shw (row ! 0) of
           Inl e \<Rightarrow> Inl e
         | Inr la \<Rightarrow>
        (case Number conv shw (row ! 1) of
           Inl e \<Rightarrow> Inl e
         | Inr lo \<Rightarrow>
        (case (la, lo) of
           (Fin x, Fin y) \<Rightarrow>
             Inr (Some \<lparr>lat = x, lon = y, ts = synthTs now hourIndex,
                        pid = synthId shw rowIndex\<rparr>)
         | _ \<Rightarrow> Inr None)))
      else Inr None)"
| "normalizeRow conv shw now v hourIndex rowIndex = Inr None"

text \<open>
  A sample of the two runtime conversions, for the concrete evaluations of this theory:
  \<open>decimal\<close> prints a natural number in base ten, \<open>sampleShow\<close> uses it on the numbers that
  are natural numbers, and \<open>sampleConv\<close> reads no string as a number. The concrete rows below
  carry their numbers as JSON numbers and their ids as strings, so that what they evaluate
  to does not depend on this choice.
\<close>

fun digit :: "nat \<Rightarrow> char" where
  "digit n = ''0123456789'' ! (n mod 10)"

function decimal :: "nat \<Rightarrow> string" where
  "decimal n = (if n < 10 then [digit n] else decimal (n div 10) @ [digit n])"
  by pat_completeness auto
termination
  by (relation "measure id") auto

declare decimal.simps [simp del]

definition sampleShow :: "jsval \<Rightarrow> string" where
  "sampleShow v =
     (case v of
        Num (Fin x) \<Rightarrow> (if 0 \<le> x \<and> x = real_of_int \<lfloor>x\<rfloor> then decimal (nat \<lfloor>x\<rfloor>) else ''?'')
      | _ \<Rightarrow> ''?'')"

definition sampleConv :: "jsval \<Rightarrow> jsnum" where
  "sampleConv v = NaN"

section \<open>Snapshot fetcher and trajectory builder\<close>

text \<open>
  What \<open>Promise.allSettled\<close> reports for one promise. For an hour of \<open>fetchLast24h\<close> the
  promise is rejected when \<open>fetch\<close> throws, when the status is not a success (the \<open>throw\<close> in
  the callback) and when \<open>r.json()\<close> fails; otherwise it is fulfilled with the parsed body.
\<close>

datatype 'a settled = Fulfilled 'a | Rejected

text \<open>
  \<open>byId\<close> is the object literal \<open>{}\<close> used as a dictionary: the list of its own properties in
  insertion order. It inherits from \<open>Object.prototype\<close>, so a read \<open>byId[k]\<close> of a key it does
  not own finds the inherited members below (functions, and \<open>Object.prototype\<close> itself for
  \<open>__proto__\<close>), all of them truthy and none of them with a \<open>push\<close> method.
\<close>

type_synonym grouped = "(string \<times> point list) list"

definition objectProtoKeys :: "string list" where
  "objectProtoKeys =
     [''constructor'', ''__proto__'', ''hasOwnProperty'', ''isPrototypeOf'',
      ''propertyIsEnumerable'', ''toLocaleString'', ''toString'', ''valueOf'',
      ''__defineGetter__'', ''__defineSetter__'', ''__lookupGetter__'', ''__lookupSetter__'']"

text \<open>
  \<open>(byId[k] ||= []).push(p)\<close>. An own property holds an array (truthy), which receives the
  point. A key that is neither owned nor inherited reads \<open>undefined\<close>, so a new own property
  \<open>[]\<close> is appended and receives the point. An inherited member is truthy, nothing is
  assigned, and calling its missing \<open>push\<close> throws a TypeError.
\<close>

definition pushPoint :: "grouped \<Rightarrow> string \<Rightarrow> point \<Rightarrow> error + grouped" where
  "pushPoint byId k p =
     (case map_of byId k of
        Some ps \<Rightarrow> Inr (AList.update k (ps @ [p]) byId)
      | None \<Rightarrow>
          if k \<in> set objectProtoKeys then Inl TypeError
          else Inr (byId @ [(k, [p])]))"

record ingest =
  byId :: grouped
  totalRows :: nat
  keptRows :: nat

text \<open>
  The inner \<open>arr.forEach((raw, rowIdx) => ...)\<close> from row \<open>rowIdx\<close> on. \<open>clock h i\<close> is the value
  of \<open>Math.floor(Date.now() / 1000)\<close> while row \<open>i\<close> of hour \<open>h\<close> is normalized. An exception,
  of \<open>normalizeRow\<close> or of the grouping, leaves the loop, and \<open>fetchLast24h\<close>, at once.
\<close>

fun rowsLoop ::
  "(jsval \<Rightarrow> jsnum) \<Rightarrow> (jsval \<Rightarrow> string) \<Rightarrow> (nat \<Rightarrow> nat \<Rightarrow> int) \<Rightarrow> nat \<Rightarrow>
   jsval list \<Rightarrow> nat \<Rightarrow> ingest \<Rightarrow> error + ingest"
where
  "rowsLoop conv shw clock hourIdx [] rowIdx st = Inr st"
| "rowsLoop conv shw clock hourIdx (raw # rest) rowIdx st =
     (case normalizeRow conv shw (clock hourIdx rowIdx) raw hourIdx rowIdx of
        Inl e \<Rightarrow> Inl e
      | Inr None \<Rightarrow> rowsLoop conv shw clock hourIdx rest (Suc rowIdx) st
      | Inr (Some n) \<Rightarrow>
          (case pushPoint (byId st) (pid n) \<lparr>lat = lat n, lon = lon n, ts = ts n\<rparr> of
             Inl e \<Rightarrow> Inl e
           | Inr byId' \<Rightarrow>
               rowsLoop conv shw clock hourIdx rest (Suc rowIdx)
                 (st\<lparr>byId := byId', keptRows := keptRows st + 1\<rparr>)))"

text \<open>
  \<open>results.forEach((res, hourIdx) => ...)\<close> from hour \<open>hourIdx\<close> on: an hour that is not
  fulfilled, or whose value is not an array, is left at the \<open>return\<close> of its first line.
\<close>

fun hoursLoop ::
  "(jsval \<Rightarrow> jsnum) \<Rightarrow> (jsval \<Rightarrow> string) \<Rightarrow> (nat \<Rightarrow> nat \<Rightarrow> int) \<Rightarrow>
   jsval settled list \<Rightarrow> nat \<Rightarrow> ingest \<Rightarrow> error + ingest"
where
  "hoursLoop conv shw clock [] hourIdx st = Inr st"
| "hoursLoop conv shw clock (Fulfilled (Arr arr) # rest) hourIdx st =
     (case rowsLoop conv shw clock hourIdx arr 0 (st\<lparr>totalRows := totalRows st + length arr\<rparr>) of
        Inl e \<Rightarrow> Inl e
      | Inr st' \<Rightarrow> hoursLoop conv shw clock rest (Suc hourIdx) st')"
| "hoursLoop conv shw clock (res # rest) hourIdx st =
     hoursLoop conv shw clock rest (Suc hourIdx) st"

text \<open>
  The \<open>filter\<close> of the sort/dedupe step, with the set \<open>seen\<close> of keys \<open>`${p.ts}`\<close> met so far.
\<close>

fun dedupe :: "(jsval \<Rightarrow> string) \<Rightarrow> string set \<Rightarrow> point list \<Rightarrow> point list" where
  "dedupe shw seen [] = []"
| "dedupe shw seen (p # ps) =
     (let k = shw (Num (Fin (ts p)))
      in if k \<in> seen then dedupe shw seen ps else p # dedupe shw (insert k seen) ps)"

text \<open>
  \<open>.sort((a, b) => a.ts - b.ts).filter(...)\<close>. The timestamps are finite, so the comparator
  orders the points by timestamp; \<open>Array.prototype.sort\<close> is stable, which fixes its result
  as the stable sort by the timestamp key.
\<close>

definition sortDedupe :: "(jsval \<Rightarrow> string) \<Rightarrow> point list \<Rightarrow> point list" where
  "sortDedupe shw ps = dedupe shw {} (sort_key ts ps)"

record stats =
  raw :: nat
  kept :: nat
  balloons :: nat

text \<open>
  \<open>fetchLast24h\<close> after the 24 fetches have settled: \<open>results\<close> lists what they settled to,
  hour 00 first. The loop over \<open>Object.keys(byId)\<close> replaces the value of every own property
  and leaves the keys and their order alone; \<open>Object.keys(byId).length\<close> counts them.
\<close>

definition fetchLast24h ::
  "(jsval \<Rightarrow> jsnum) \<Rightarrow> (jsval \<Rightarrow> string) \<Rightarrow> (nat \<Rightarrow> nat \<Rightarrow> int) \<Rightarrow>
   jsval settled list \<Rightarrow> error + (grouped \<times> stats)"
where
  "fetchLast24h conv shw clock results =
     (case hoursLoop conv shw clock results 0 \<lparr>byId = [], totalRows = 0, keptRows = 0\<rparr> of
        Inl e \<Rightarrow> Inl e
      | Inr st \<Rightarrow>
          (let built = map (\<lambda>(k, ps). (k, sortDedupe shw ps)) (byId st)
           in Inr (built,
                   \<lparr>raw = totalRows st, kept = keptRows st, balloons = length (map fst built)\<rparr>)))"

section \<open>Number arithmetic\<close>

text \<open>
  The arithmetic of the language on numbers: IEEE 754 binary64 with rounding to nearest,
  ties to even. \<open>rd x\<close> is the number that the exact result \<open>x\<close> of an operation is rounded
  to: \<open>expo x\<close> is the binary exponent of \<open>x\<close>, not below that of the smallest normal number,
  the unit in the last place is \<open>2^(expo x - 52)\<close>, and a result that rounds to \<open>2^1024\<close> or
  beyond overflows to an infinity.
\<close>

definition pow2 :: "int \<Rightarrow> real" where
  "pow2 e = (if 0 \<le> e then 2 ^ nat e else 1 / 2 ^ nat (- e))"

definition roundEven :: "real \<Rightarrow> int" where
  "roundEven x =
     (let f = \<lfloor>x\<rfloor>; r = x - real_of_int f
      in if r < 1 / 2 then f else if 1 / 2 < r then f + 1 else if even f then f else f + 1)"

definition expo :: "real \<Rightarrow> int" where
  "expo x = max \<lfloor>log 2 \<bar>x\<bar>\<rfloor> (- 1022)"

definition rd :: "real \<Rightarrow> jsnum" where
  "rd x =
     (if x = 0 then Fin 0
      else (let u = pow2 (expo x - 52);
                y = u * real_of_int (roundEven (x / u))
            in if 2 ^ 1024 \<le> \<bar>y\<bar> then (if 0 < x then PInf else NInf) else Fin y))"

text \<open>
  \<open>a + b\<close>, \<open>-a\<close>, \<open>a - b\<close>, \<open>a * b\<close> and \<open>a / b\<close>. NaN is contagious, \<open>\<infinity> - \<infinity>\<close>, \<open>0 * \<infinity>\<close>,
  \<open>\<infinity> / \<infinity>\<close> and \<open>0 / 0\<close> are NaN, and a finite result is rounded. A zero divisor is taken
  as positive; no division of this program has a zero divisor.
\<close>

fun jadd :: "jsnum \<Rightarrow> jsnum \<Rightarrow> jsnum" where
  "jadd NaN b = NaN"
| "jadd a NaN = NaN"
| "jadd (Fin x) (Fin y) = rd (x + y)"
| "jadd PInf NInf = NaN"
| "jadd NInf PInf = NaN"
| "jadd PInf b = PInf"
| "jadd a PInf = PInf"
| "jadd NInf b = NInf"
| "jadd a NInf = NInf"

fun jneg :: "jsnum \<Rightarrow> jsnum" where
  "jneg (Fin x) = Fin (- x)"
| "jneg PInf = NInf"
| "jneg NInf = PInf"
| "jneg NaN = NaN"

definition jsub :: "jsnum \<Rightarrow> jsnum \<Rightarrow> jsnum" where
  "jsub a b = jadd a (jneg b)"

fun jmul :: "jsnum \<Rightarrow> jsnum \<Rightarrow> jsnum" where
  "jmul NaN b = NaN"
| "jmul a NaN = NaN"
| "jmul (Fin x) (Fin y) = rd (x * y)"
| "jmul (Fin x) b = (if x = 0 then NaN else if (0 < x) = (b = PInf) then PInf else NInf)"
| "jmul a (Fin y) = (if y = 0 then NaN else if (0 < y) = (a = PInf) then PInf else NInf)"
| "jmul a b = (if a = b then PInf else NInf)"

fun jdiv :: "jsnum \<Rightarrow> jsnum \<Rightarrow> jsnum" where
  "jdiv NaN b = NaN"
| "jdiv a NaN = NaN"
| "jdiv (Fin x) (Fin y) =
     (if y = 0 then (if x = 0 then NaN else if 0 < x then PInf else NInf) else rd (x / y))"
| "jdiv (Fin x) b = Fin 0"
| "jdiv a (Fin y) = (if (0 \<le> y) = (a = PInf) then PInf else NInf)"
| "jdiv a b = NaN"

text \<open>\<open>a < b\<close>, false when an operand is NaN; \<open>a > b\<close> is \<open>jless b a\<close>.\<close>

fun jless :: "jsnum \<Rightarrow> jsnum \<Rightarrow> bool" where
  "jless NaN b = False"
| "jless a NaN = False"
| "jless (Fin x) (Fin y) = (x < y)"
| "jless a NInf = False"
| "jless NInf b = True"
| "jless PInf b = False"
| "jless a PInf = True"

text \<open>
  \<open>Math.min\<close>, \<open>Math.max\<close> and \<open>Math.abs\<close>; \<open>a % b\<close>, which is exact and takes the sign of \<open>a\<close>;
  \<open>Math.round\<close>, which rounds halves up.
\<close>

definition mathMin :: "jsnum \<Rightarrow> jsnum \<Rightarrow> jsnum" where
  "mathMin a b = (if a = NaN \<or> b = NaN then NaN else if jless b a then b else a)"

definition mathMax :: "jsnum \<Rightarrow> jsnum \<Rightarrow> jsnum" where
  "mathMax a b = (if a = NaN \<or> b = NaN then NaN else if jless a b then b else a)"

fun mathAbs :: "jsnum \<Rightarrow> jsnum" where
  "mathAbs (Fin x) = Fin \<bar>x\<bar>"
| "mathAbs PInf = PInf"
| "mathAbs NInf = PInf"
| "mathAbs NaN = NaN"

fun jrem :: "jsnum \<Rightarrow> jsnum \<Rightarrow> jsnum" where
  "jrem (Fin x) (Fin y) =
     (if y = 0 then NaN
      else Fin (x - y * real_of_int (if 0 \<le> x / y then \<lfloor>x / y\<rfloor> else \<lceil>x / y\<rceil>)))"
| "jrem (Fin x) PInf = Fin x"
| "jrem (Fin x) NInf = Fin x"
| "jrem a b = NaN"

fun mathRound :: "jsnum \<Rightarrow> jsnum" where
  "mathRound (Fin x) = Fin (real_of_int \<lfloor>x + 1 / 2\<rfloor>)"
| "mathRound a = a"

text \<open>
  The functions whose values on finite arguments the language leaves to the engine
  (\<open>Math.sin\<close>, \<open>Math.cos\<close>, \<open>Math.asin\<close>, \<open>Math.sqrt\<close>, \<open>x ** 2\<close>) and \<open>Math.atan2\<close> on arguments
  that are not NaN: the fields of \<open>lib\<close>. What the language fixes is written out: NaN gives
  NaN, the sine, cosine and arcsine of an infinity are NaN, the square root of \<open>+\<infinity>\<close> and
  the square of an infinity are \<open>+\<infinity>\<close>, the square root of \<open>-\<infinity>\<close> is NaN.
\<close>

record libm =
  sinF :: "real \<Rightarrow> jsnum"
  cosF :: "real \<Rightarrow> jsnum"
  asinF :: "real \<Rightarrow> jsnum"
  sqrtF :: "real \<Rightarrow> jsnum"
  squareF :: "real \<Rightarrow> jsnum"
  atan2F :: "jsnum \<Rightarrow> jsnum \<Rightarrow> jsnum"

fun mathSin :: "libm \<Rightarrow> jsnum \<Rightarrow> jsnum" where
  "mathSin lib (Fin x) = sinF lib x"
| "mathSin lib a = NaN"

fun mathCos :: "libm \<Rightarrow> jsnum \<Rightarrow> jsnum" where
  "mathCos lib (Fin x) = cosF lib x"
| "mathCos lib a = NaN"

fun mathAsin :: "libm \<Rightarrow> jsnum \<Rightarrow> jsnum" where
  "mathAsin lib (Fin x) = asinF lib x"
| "mathAsin lib a = NaN"

fun mathSqrt :: "libm \<Rightarrow> jsnum \<Rightarrow> jsnum" where
  "mathSqrt lib (Fin x) = sqrtF lib x"
| "mathSqrt lib PInf = PInf"
| "mathSqrt lib a = NaN"

fun square :: "libm \<Rightarrow> jsnum \<Rightarrow> jsnum" where
  "square lib (Fin x) = squareF lib x"
| "square lib NaN = NaN"
| "square lib a = PInf"

definition mathAtan2 :: "libm \<Rightarrow> jsnum \<Rightarrow> jsnum \<Rightarrow> jsnum" where
  "mathAtan2 lib y x = (if y = NaN \<or> x = NaN then NaN else atan2F lib y x)"

text \<open>\<open>Math.PI\<close>, the binary64 number nearest to \<open>\<pi>\<close>.\<close>

definition MathPI :: jsnum where
  "MathPI = Fin (884279719003555 / 281474976710656)"

section \<open>Geometry\<close>

definition toRad :: "jsnum \<Rightarrow> jsnum" where
  "toRad deg = jdiv (jmul deg MathPI) (Fin 180)"

definition haversineMeters :: "libm \<Rightarrow> latlon \<Rightarrow> latlon \<Rightarrow> jsnum" where
  "haversineMeters lib a b =
     (let R = Fin 6371000;
          phi1 = toRad (Fin (lat a));
          phi2 = toRad (Fin (lat b));
          dphi = toRad (jsub (Fin (lat b)) (Fin (lat a)));
          dlam = toRad (jsub (Fin (lon b)) (Fin (lon a)));
          x = jadd (square lib (mathSin lib (jdiv dphi (Fin 2))))
                (jmul (jmul (mathCos lib phi1) (mathCos lib phi2))
                   (square lib (mathSin lib (jdiv dlam (Fin 2)))))
      in jmul (jmul (Fin 2) R) (mathAsin lib (mathSqrt lib x)))"

definition bearingDeg :: "libm \<Rightarrow> latlon \<Rightarrow> latlon \<Rightarrow> jsnum" where
  "bearingDeg lib a b =
     (let phi1 = toRad (Fin (lat a));
          phi2 = toRad (Fin (lat b));
          lam1 = toRad (Fin (lon a));
          lam2 = toRad (Fin (lon b));
          y = jmul (mathSin lib (jsub lam2 lam1)) (mathCos lib phi2);
          x = jsub (jmul (mathCos lib phi1) (mathSin lib phi2))
                (jmul (jmul (mathSin lib phi1) (mathCos lib phi2)) (mathCos lib (jsub lam2 lam1)))
      in jrem (jadd (jdiv (jmul (mathAtan2 lib y x) (Fin 180)) MathPI) (Fin 360)) (Fin 360))"

section \<open>Risk model\<close>

text \<open>
  A numeric field that may be missing is an option: \<open>None\<close> stands for \<open>undefined\<close> and for
  \<open>null\<close>, which every test below (\<open>== null\<close>, \<open>!= null\<close>, \<open>??\<close>) treats alike.
\<close>

definition angleDelta :: "jsnum option \<Rightarrow> jsnum option \<Rightarrow> jsnum option" where
  "angleDelta a b =
     (case (a, b) of
        (Some x, Some y) \<Rightarrow>
          (let d = jrem (mathAbs (jsub x y)) (Fin 360)
           in Some (if jless (Fin 180) d then jsub (Fin 360) d else d))
      | _ \<Rightarrow> None)"

text \<open>
  The wind fields first, as the wind service gives them (finite numbers), then the two
  kinematic fields: the properties that \<open>computeRisk\<close> destructures from its argument. A
  trajectory extends this record.
\<close>

record winds =
  wind500 :: "real option"
  dir500 :: "real option"
  wind700 :: "real option"
  dir700 :: "real option"

record kinematics = winds +
  driftKmh :: "jsnum option"
  headingDeg :: "jsnum option"

definition useDir :: "'a kinematics_scheme \<Rightarrow> real option" where
  "useDir r = (case dir700 r of Some v \<Rightarrow> Some v | None \<Rightarrow> dir500 r)"

definition mismatch :: "'a kinematics_scheme \<Rightarrow> jsnum option" where
  "mismatch r = angleDelta (headingDeg r) (map_option Fin (useDir r))"

definition shear :: "'a kinematics_scheme \<Rightarrow> jsnum option" where
  "shear r =
     (case (wind700 r, wind500 r) of
        (Some a, Some b) \<Rightarrow> Some (mathAbs (jsub (Fin a) (Fin b)))
      | _ \<Rightarrow> None)"

text \<open>
  The three components \<open>d\<close>, \<open>m\<close> and \<open>s\<close>: drift capped at 100 km/h, mismatch at 90 degrees
  and shear at 30 m/s, the last two 0 when missing.
\<close>

definition driftPart :: "jsnum \<Rightarrow> jsnum" where
  "driftPart drift = mathMin (jdiv drift (Fin 100)) (Fin 1)"

definition mismatchPart :: "jsnum option \<Rightarrow> jsnum" where
  "mismatchPart v = (case v of Some x \<Rightarrow> mathMin (jdiv x (Fin 90)) (Fin 1) | None \<Rightarrow> Fin 0)"

definition shearPart :: "jsnum option \<Rightarrow> jsnum" where
  "shearPart v = (case v of Some x \<Rightarrow> mathMin (jdiv x (Fin 30)) (Fin 1) | None \<Rightarrow> Fin 0)"

text \<open>
  \<open>computeRisk\<close>; the literals \<open>0.4\<close> and \<open>0.2\<close> are the numbers nearest to them.
\<close>

definition computeRisk :: "'a kinematics_scheme \<Rightarrow> jsnum option" where
  "computeRisk r =
     (case driftKmh r of
        None \<Rightarrow> None
      | Some drift \<Rightarrow>
          (let d = driftPart drift;
               m = mismatchPart (mismatch r);
               s = shearPart (shear r)
           in Some (mathRound
                (jmul (jadd (jadd (jmul (rd (4 / 10)) d) (jmul (rd (4 / 10)) m))
                         (jmul (rd (2 / 10)) s))
                   (Fin 100)))))"

section \<open>Kinematics and diagnostics\<close>

record track = kinematics +
  tid :: string
  points :: "point list"
  risk :: "jsnum option"
  stale :: bool
  ageSec :: "jsnum option"
  ageLabel :: string
  gapKm :: jsnum
  gap :: bool

definition STALE_SEC :: jsnum where
  "STALE_SEC = Fin (60 * 60)"

definition GAP_KM :: jsnum where
  "GAP_KM = Fin 300"

definition ENRICH_SUBSET :: nat where
  "ENRICH_SUBSET = 50"

definition ENRICH_BATCH :: nat where
  "ENRICH_BATCH = 25"

text \<open>
  \<open>fmtAge\<close>, with the printing of a number (\<open>shw\<close>) and \<open>toFixed(1)\<close> (\<open>fix1\<close>) taken from the
  runtime; \<open>''--''\<close> stands for the dash of the source.
\<close>

definition fmtAge :: "(jsval \<Rightarrow> string) \<Rightarrow> (jsnum \<Rightarrow> string) \<Rightarrow> jsnum option \<Rightarrow> string" where
  "fmtAge shw fix1 sec =
     (case sec of
        None \<Rightarrow> ''--''
      | Some s \<Rightarrow>
          if jless s (Fin 90) then shw (Num (mathRound s)) @ ''s''
          else (let m = jdiv s (Fin 60)
                in if jless m (Fin 90) then shw (Num (mathRound m)) @ ''m''
                   else fix1 (jdiv m (Fin 60)) @ ''h''))"

text \<open>
  The callback that \<open>load\<close> maps over \<open>Object.entries(byId)\<close>, one entry \<open>[id, points]\<close> at a
  time; \<open>nowSec\<close> is \<open>Math.floor(Date.now() / 1000)\<close> and \<open>label\<close> is \<open>fmtAge\<close>. The wind fields
  do not exist on the object it returns and \<open>risk\<close> is \<open>undefined\<close>.
\<close>

definition buildTrack ::
  "libm \<Rightarrow> (jsnum option \<Rightarrow> string) \<Rightarrow> int \<Rightarrow> string \<times> point list \<Rightarrow> track"
where
  "buildTrack lib label nowSec entry =
     (let ident = fst entry;
          pts = snd entry;
          age = (if pts \<noteq> []
                 then Some (mathMax (Fin 0) (jsub (Fin (real_of_int nowSec)) (Fin (ts (last pts)))))
                 else None);
          lbl = (if pts \<noteq> [] then label age else ''--'');
          two = (length pts \<ge> 2);
          prev = pts ! (length pts - 2);
          lst = pts ! (length pts - 1);
          distM = haversineMeters lib \<lparr>lat = lat prev, lon = lon prev\<rparr>
                    \<lparr>lat = lat lst, lon = lon lst\<rparr>;
          dtH = mathMax (jdiv (jsub (Fin (ts lst)) (Fin (ts prev))) (Fin 3600)) (rd (1 / 1000000))
      in \<lparr>wind500 = None, dir500 = None, wind700 = None, dir700 = None,
          driftKmh = (if two then Some (jdiv (jdiv distM (Fin 1000)) dtH) else None),
          headingDeg = (if two
             then Some (bearingDeg lib \<lparr>lat = lat prev, lon = lon prev\<rparr>
                          \<lparr>lat = lat lst, lon = lon lst\<rparr>)
             else None),
          tid = ident, points = pts, risk = None,
          stale = (case age of Some a \<Rightarrow> jless STALE_SEC a | None \<Rightarrow> False),
          ageSec = age, ageLabel = lbl,
          gapKm = (if two then jdiv distM (Fin 1000) else Fin 0),
          gap = (if two then jless GAP_KM (jdiv distM (Fin 1000)) else False)\<rparr>)"

section \<open>Wind service\<close>

text \<open>
  What one request to the wind service comes to. \<open>Failed\<close>: \<open>fetch\<close> throws. \<open>Http ok body\<close>: a
  response with \<open>r.ok = ok\<close>, whose body either does not parse (\<open>r.json()\<close> throws), parses to
  \<open>null\<close>, or parses to a document. A document is read through \<open>j.hourly\<close> only: \<open>None\<close> is a
  document without it. Each of the five hourly properties may be missing; \<open>time\<close> is an
  array, and a series is an array of numbers and \<open>null\<close>s.
\<close>

record hourly =
  time :: "string list option"
  windspeed_500hPa :: "real option list option"
  winddirection_500hPa :: "real option list option"
  windspeed_700hPa :: "real option list option"
  winddirection_700hPa :: "real option list option"

datatype body = Unparsable | NullBody | Doc "hourly option"

datatype response = Failed | Http bool body

text \<open>\<open>series?.[i]\<close>: nothing for a missing series and beyond its end.\<close>

definition seriesAt :: "real option list option \<Rightarrow> nat \<Rightarrow> real option" where
  "seriesAt series i =
     (case series of
        None \<Rightarrow> None
      | Some xs \<Rightarrow> if i < length xs then xs ! i else None)"

text \<open>\<open>j.hourly?.time?.length ?? 0\<close>.\<close>

definition timeLength :: "hourly option \<Rightarrow> nat" where
  "timeLength h =
     (case h of
        None \<Rightarrow> 0
      | Some hr \<Rightarrow> (case time hr of None \<Rightarrow> 0 | Some t \<Rightarrow> length t))"

text \<open>
  The \<open>try\<close> block of \<open>fetchWinds\<close>. Its result is \<open>None\<close> for the empty object \<open>{}\<close> and
  \<open>Some w\<close> for the object with the four wind properties. Reading \<open>j.hourly\<close> of \<open>null\<close> is a
  TypeError.
\<close>

fun fetchWindsTry :: "response \<Rightarrow> error + winds option" where
  "fetchWindsTry Failed = Inl NetworkError"
| "fetchWindsTry (Http ok Unparsable) = (if \<not> ok then Inr None else Inl SyntaxError)"
| "fetchWindsTry (Http ok NullBody) = (if \<not> ok then Inr None else Inl TypeError)"
| "fetchWindsTry (Http ok (Doc h)) =
     (if \<not> ok then Inr None
      else (let n = timeLength h
            in if n = 0 then Inr None
               else (let i = n - 1
                     in (case h of
                           None \<Rightarrow> Inr (Some \<lparr>wind500 = None, dir500 = None,
                                                  wind700 = None, dir700 = None\<rparr>)
                         | Some hr \<Rightarrow>
                             Inr (Some \<lparr>wind500 = seriesAt (windspeed_500hPa hr) i,
                                        dir500 = seriesAt (winddirection_500hPa hr) i,
                                        wind700 = seriesAt (windspeed_700hPa hr) i,
                                        dir700 = seriesAt (winddirection_700hPa hr) i\<rparr>)))))"

text \<open>\<open>fetchWinds\<close>: the \<open>catch\<close> turns every exception of the block into \<open>{}\<close>.\<close>

definition fetchWinds :: "response \<Rightarrow> winds option" where
  "fetchWinds r = (case fetchWindsTry r of Inl e \<Rightarrow> None | Inr w \<Rightarrow> w)"

section \<open>Enrichment\<close>

text \<open>
  The second component of the pair an enrichment call returns: \<open>{}\<close>, or \<open>{...winds, risk}\<close>,
  which has the four wind properties when \<open>winds\<close> has them and always has \<open>risk\<close>.
\<close>

datatype patch = EmptyPatch | Patch "winds option" "jsnum option"

text \<open>\<open>{...tr, ...winds}\<close>: the wind properties of \<open>winds\<close>, when it has them, replace those of \<open>tr\<close>.\<close>

definition withWinds :: "track \<Rightarrow> winds option \<Rightarrow> track" where
  "withWinds tr w =
     (case w of
        None \<Rightarrow> tr
      | Some ws \<Rightarrow> tr\<lparr>wind500 := wind500 ws, dir500 := dir500 ws,
                       wind700 := wind700 ws, dir700 := dir700 ws\<rparr>)"

text \<open>
  The async callback of \<open>enrichInBatches\<close> for one trajectory, given what its wind request
  comes to. It has no path that throws, so its promise is always fulfilled.
\<close>

definition enrichOne :: "response \<Rightarrow> track \<Rightarrow> (string \<times> patch) settled" where
  "enrichOne resp tr =
     (if points tr = [] then Fulfilled (tid tr, EmptyPatch)
      else (let w = fetchWinds resp;
                r = computeRisk (withWinds tr w)
            in Fulfilled (tid tr, Patch w r)))"

text \<open>
  One pass of the loop body: \<open>items.slice(i, i + batchSize)\<close> and what \<open>Promise.allSettled\<close>
  reports for it, in the order of the batch. \<open>net k\<close> is what the wind request of item \<open>k\<close>
  comes to.
\<close>

definition batchAt :: "track list \<Rightarrow> nat \<Rightarrow> nat \<Rightarrow> track list" where
  "batchAt items batchSize i = take batchSize (drop i items)"

definition batchResults ::
  "(nat \<Rightarrow> response) \<Rightarrow> track list \<Rightarrow> nat \<Rightarrow> nat \<Rightarrow> (string \<times> patch) settled list"
where
  "batchResults net items batchSize i =
     map (\<lambda>(k, tr). enrichOne (net (i + k)) tr) (enumerate 0 (batchAt items batchSize i))"

text \<open>
  The \<open>for\<close> loop of \<open>enrichInBatches\<close>, from index \<open>i\<close> with \<open>out\<close> collected so far. With a
  batch size of 0 and an index inside \<open>items\<close> it never ends, and the value is \<open>None\<close>.
\<close>

partial_function (option) enrichLoop ::
  "(nat \<Rightarrow> response) \<Rightarrow> track list \<Rightarrow> nat \<Rightarrow> nat \<Rightarrow> (string \<times> patch) settled list \<Rightarrow>
   (string \<times> patch) settled list option"
where
  "enrichLoop net items batchSize i out =
     (if i < length items
      then enrichLoop net items batchSize (i + batchSize) (out @ batchResults net items batchSize i)
      else Some out)"

definition enrichInBatches ::
  "(nat \<Rightarrow> response) \<Rightarrow> track list \<Rightarrow> nat \<Rightarrow> (string \<times> patch) settled list option"
where
  "enrichInBatches net items batchSize = enrichLoop net items batchSize 0 []"

text \<open>
  The same loop with the order of its events: \<open>Started k\<close> when the callback of item \<open>k\<close> is
  called, \<open>Settled k\<close> when its promise settles. While \<open>batch.map\<close> runs, the callbacks of
  the batch are called in order; the callback of an item without points returns at once,
  so its promise is settled before the next callback is called, and every other callback
  is left waiting for its wind request. \<open>await Promise.allSettled\<close> then gives control back
  only when each of the waiting promises has settled, in whatever order \<open>ord\<close> they do. The
  results are appended to \<open>out\<close> and the next pass follows.
  \<open>enrichRun net items batchSize i out evs res\<close>: from index \<open>i\<close>, with \<open>out\<close> collected so
  far, the loop can go through the events \<open>evs\<close> and return \<open>res\<close>.
\<close>

datatype event = Started nat | Settled nat

definition startEvents :: "track list \<Rightarrow> nat list \<Rightarrow> event list" where
  "startEvents items ks =
     concat (map (\<lambda>k. if points (items ! k) = [] then [Started k, Settled k] else [Started k]) ks)"

inductive enrichRun ::
  "(nat \<Rightarrow> response) \<Rightarrow> track list \<Rightarrow> nat \<Rightarrow> nat \<Rightarrow> (string \<times> patch) settled list \<Rightarrow>
   event list \<Rightarrow> (string \<times> patch) settled list \<Rightarrow> bool"
where
  finished:
    "\<not> i < length items \<Longrightarrow> enrichRun net items batchSize i out [] out"
| batch:
    "i < length items \<Longrightarrow>
     distinct ord \<Longrightarrow>
     set ord = {k \<in> {i ..< min (i + batchSize) (length items)}. points (items ! k) \<noteq> []} \<Longrightarrow>
     enrichRun net items batchSize (i + batchSize) (out @ batchResults net items batchSize i)
       rest res \<Longrightarrow>
     enrichRun net items batchSize i out
       (startEvents items [i ..< min (i + batchSize) (length items)] @ map Settled ord @ rest) res"

text \<open>The items whose callbacks are called, in the order of the calls.\<close>

definition calls :: "event list \<Rightarrow> nat list" where
  "calls evs = concat (map (\<lambda>e. case e of Started k \<Rightarrow> [k] | Settled k \<Rightarrow> []) evs)"

section \<open>The load cycle\<close>

text \<open>
  \<open>Object.entries\<close> lists the own properties of an object in the order of the language: the
  keys that are array indices (canonical decimal strings below \<open>2^32 - 1\<close>) first, in
  ascending numeric order, then the other keys in insertion order.
\<close>

definition digitVal :: "char \<Rightarrow> nat" where
  "digitVal c = length (takeWhile (\<lambda>d. d \<noteq> c) ''0123456789'')"

definition indexValue :: "string \<Rightarrow> nat" where
  "indexValue s = foldl (\<lambda>a c. 10 * a + digitVal c) 0 s"

definition isArrayIndex :: "string \<Rightarrow> bool" where
  "isArrayIndex s \<longleftrightarrow>
     s \<noteq> [] \<and> list_all (\<lambda>c. c \<in> set ''0123456789'') s \<and> (s = ''0'' \<or> hd s \<noteq> CHR ''0'')
     \<and> indexValue s < 4294967295"

definition ownEntries :: "(string \<times> 'a) list \<Rightarrow> (string \<times> 'a) list" where
  "ownEntries kvs =
     sort_key (\<lambda>kv. indexValue (fst kv)) (filter (\<lambda>kv. isArrayIndex (fst kv)) kvs)
     @ filter (\<lambda>kv. \<not> isArrayIndex (fst kv)) kvs"

text \<open>\<open>Object.fromEntries\<close>: of two pairs with one key, the later one stays.\<close>

definition fromEntries :: "(string \<times> 'a) list \<Rightarrow> string \<Rightarrow> 'a option" where
  "fromEntries kvs = map_of (rev kvs)"

text \<open>\<open>results.filter((r) => r.status === "fulfilled").map((r) => r.value)\<close>.\<close>

fun fulfilledValues :: "'a settled list \<Rightarrow> 'a list" where
  "fulfilledValues [] = []"
| "fulfilledValues (Fulfilled v # rs) = v # fulfilledValues rs"
| "fulfilledValues (Rejected # rs) = fulfilledValues rs"

text \<open>\<open>{...tr, ...p}\<close> for a patch \<open>p\<close>.\<close>

fun applyPatch :: "track \<Rightarrow> patch \<Rightarrow> track" where
  "applyPatch tr EmptyPatch = tr"
| "applyPatch tr (Patch w r) = (withWinds tr w)\<lparr>risk := r\<rparr>"

text \<open>
  \<open>prev.map((tr) => ({...tr, ...(patch[tr.id] ?? {})}))\<close>. A key that the patch object does
  not own reads \<open>undefined\<close>, or an inherited member of \<open>Object.prototype\<close>, which has no
  enumerable property of its own: spreading either adds nothing.
\<close>

definition mergeTracks :: "(string \<times> patch) settled list \<Rightarrow> track list \<Rightarrow> track list" where
  "mergeTracks results prev =
     (let patch = fromEntries (fulfilledValues results)
      in map (\<lambda>tr. applyPatch tr (case patch (tid tr) of Some p \<Rightarrow> p | None \<Rightarrow> EmptyPatch)) prev)"

text \<open>Phase 1 of \<open>load\<close>: the list of trajectories built from the grouped points.\<close>

definition buildList ::
  "libm \<Rightarrow> (jsnum option \<Rightarrow> string) \<Rightarrow> int \<Rightarrow> grouped \<Rightarrow> track list"
where
  "buildList lib label nowSec grouped = map (buildTrack lib label nowSec) (ownEntries grouped)"

text \<open>
  Phase 2 of \<open>load\<close> on the list of phase 1, merged into that list: \<open>None\<close> if the enrichment
  loop does not end.
\<close>

definition enrichPhase ::
  "(nat \<Rightarrow> response) \<Rightarrow> nat \<Rightarrow> nat \<Rightarrow> track list \<Rightarrow> track list option"
where
  "enrichPhase net subsetSize batchSize list =
     (case enrichInBatches net (take subsetSize list) batchSize of
        None \<Rightarrow> None
      | Some results \<Rightarrow> Some (mergeTracks results list))"

text \<open>
  \<open>load\<close>: an exception of \<open>fetchLast24h\<close> rejects it before anything is published.
\<close>

definition load ::
  "libm \<Rightarrow> (jsval \<Rightarrow> jsnum) \<Rightarrow> (jsval \<Rightarrow> string) \<Rightarrow> (jsnum \<Rightarrow> string) \<Rightarrow> (nat \<Rightarrow> nat \<Rightarrow> int) \<Rightarrow>
   int \<Rightarrow> jsval settled list \<Rightarrow> (nat \<Rightarrow> response) \<Rightarrow> (error + track list \<times> stats) option"
where
  "load lib conv shw fix1 clock nowSec results net =
     (case fetchLast24h conv shw clock results of
        Inl e \<Rightarrow> Some (Inl e)
      | Inr (grouped, st) \<Rightarrow>
          (case enrichPhase net ENRICH_SUBSET ENRICH_BATCH
                  (buildList lib (fmtAge shw fix1) nowSec grouped) of
             None \<Rightarrow> None
           | Some tracks \<Rightarrow> Some (Inr (tracks, st))))"

section \<open>Sample data\<close>

text \<open>
  Concrete data for the evaluations of this theory: a point, a trajectory that carries no
  wind field and no risk, a wind service whose every request fails, a \<open>toFixed(1)\<close> that
  is not looked at, a clock that stands still, and an engine whose functions are the
  correctly rounded ones on finite arguments (\<open>atan2\<close> is the angle of the point \<open>(x, y)\<close>;
  no evaluation below calls it with an infinite argument).
\<close>

definition samplePoint :: point where
  "samplePoint = \<lparr>lat = 10, lon = 20, ts = 1699990000\<rparr>"

definition sampleTrack :: "string \<Rightarrow> point list \<Rightarrow> jsnum option \<Rightarrow> track" where
  "sampleTrack k pts drift =
     \<lparr>wind500 = None, dir500 = None, wind700 = None, dir700 = None,
      driftKmh = drift, headingDeg = None,
      tid = k, points = pts, risk = None, stale = False, ageSec = None, ageLabel = ''--'',
      gapKm = Fin 0, gap = False\<rparr>"

definition sampleNet :: "nat \<Rightarrow> response" where
  "sampleNet k = Failed"

definition sampleFix1 :: "jsnum \<Rightarrow> string" where
  "sampleFix1 x = ''?''"

definition sampleClock :: "nat \<Rightarrow> nat \<Rightarrow> int" where
  "sampleClock h i = 1700000000"

definition atan2 :: "real \<Rightarrow> real \<Rightarrow> real" where
  "atan2 y x =
     (if 0 < x then arctan (y / x)
      else if x < 0 then (if 0 \<le> y then arctan (y / x) + pi else arctan (y / x) - pi)
      else if 0 < y then pi / 2
      else if y < 0 then - pi / 2
      else 0)"

fun sampleAtan2 :: "jsnum \<Rightarrow> jsnum \<Rightarrow> jsnum" where
  "sampleAtan2 (Fin y) (Fin x) = rd (atan2 y x)"
| "sampleAtan2 a b = NaN"

definition sampleLib :: libm where
  "sampleLib =
     \<lparr>sinF = (\<lambda>x. rd (sin x)), cosF = (\<lambda>x. rd (cos x)),
      asinF = (\<lambda>x. if \<bar>x\<bar> \<le> 1 then rd (arcsin x) else NaN),
      sqrtF = (\<lambda>x. if x < 0 then NaN else rd (sqrt x)),
      squareF = (\<lambda>x. rd (x * x)),
      atan2F = sampleAtan2\<rparr>"

section \<open>Properties of the row normalizer\<close>

lemma normalizeRow_Obj_Some:
  "normalizeRow conv shw now (Obj row) h i = Inr (Some p) \<longleftrightarrow>
     rowLat conv shw row = Inr (Fin (lat p)) \<and> rowLon conv shw row = Inr (Fin (lon p)) \<and>
     rowTs conv shw now row h = Inr (ts p) \<and> String shw (rowId shw row i) = Inr (pid p) \<and>
     idpoint.more p = ()"
proof (cases "rowLat conv shw row")
  case (Inl e)
  then show ?thesis by simp
next
  case la: (Inr la)
  show ?thesis
  proof (cases "rowLon conv shw row")
    case (Inl e)
    then show ?thesis using la by simp
  next
    case lo: (Inr lo)
    show ?thesis
    proof (cases "rowTs conv shw now row h")
      case (Inl e)
      then show ?thesis using la lo by simp
    next
      case t: (Inr t)
      show ?thesis
        using la lo t
        by (cases la; cases lo; cases "String shw (rowId shw row i)"; cases p) auto
    qed
  qed
qed

lemma normalizeRow_Arr_Some:
  "normalizeRow conv shw now (Arr xs) h i = Inr (Some p) \<longleftrightarrow>
     2 \<le> length xs \<and> Number conv shw (xs ! 0) = Inr (Fin (lat p)) \<and>
     Number conv shw (xs ! 1) = Inr (Fin (lon p)) \<and>
     ts p = synthTs now h \<and> pid p = synthId shw i \<and> idpoint.more p = ()"
proof (cases "Number conv shw (xs ! 0)")
  case (Inl e)
  then show ?thesis by simp
next
  case la: (Inr la)
  show ?thesis
  proof (cases "Number conv shw (xs ! 1)")
    case (Inl e)
    then show ?thesis using la by simp
  next
    case lo: (Inr lo)
    show ?thesis
      using la lo by (cases la; cases lo; cases p) auto
  qed
qed

lemma normalizeRow_Obj_total:
  assumes "rowLat conv shw row = Inr la" "rowLon conv shw row = Inr lo"
    "rowTs conv shw now row h = Inr t"
  shows "normalizeRow conv shw now (Obj row) h i =
     (if isFinite la \<and> isFinite lo
      then (case String shw (rowId shw row i) of
              Inl e \<Rightarrow> Inl e
            | Inr s \<Rightarrow> (case (la, lo) of
                          (Fin x, Fin y) \<Rightarrow> Inr (Some \<lparr>lat = x, lon = y, ts = t, pid = s\<rparr>)
                        | _ \<Rightarrow> Inr None))
      else Inr None)"
  using assms by (cases la; cases lo) (simp_all split: sum.splits)

lemma normalizeRow_Arr_total:
  assumes "Number conv shw (xs ! 0) = Inr la" "Number conv shw (xs ! 1) = Inr lo"
    "2 \<le> length xs"
  shows "normalizeRow conv shw now (Arr xs) h i =
     (case (la, lo) of
        (Fin x, Fin y) \<Rightarrow>
          Inr (Some \<lparr>lat = x, lon = y, ts = synthTs now h, pid = synthId shw i\<rparr>)
      | _ \<Rightarrow> Inr None)"
  using assms by simp

text \<open>
  C1 (as amended). A row that normalization accepts gives a Point whose latitude and
  longitude are the finite numbers that \<open>Number\<close> makes of the row's coordinates. A row
  with a coordinate that converts to a number that is not finite is never accepted, and
  it is rejected when the conversions of the row do not throw. When they do not throw and
  both numbers are finite the row is accepted with exactly these numbers. The finite
  numbers are not compared with any range.
\<close>

theorem normalizeRow_accepts_exactly_finite:
  "(normalizeRow conv shw now (Obj row) h i = Inr (Some p) \<longrightarrow>
      rowLat conv shw row = Inr (Fin (lat p)) \<and> rowLon conv shw row = Inr (Fin (lon p)))
   \<and> (normalizeRow conv shw now (Arr xs) h i = Inr (Some p) \<longrightarrow>
      Number conv shw (xs ! 0) = Inr (Fin (lat p)) \<and> Number conv shw (xs ! 1) = Inr (Fin (lon p)))
   \<and> ((rowLat conv shw row = Inr la \<and> \<not> isFinite la)
        \<or> (rowLon conv shw row = Inr lo \<and> \<not> isFinite lo) \<longrightarrow>
      normalizeRow conv shw now (Obj row) h i \<noteq> Inr (Some p))
   \<and> ((Number conv shw (xs ! 0) = Inr la \<and> \<not> isFinite la)
        \<or> (Number conv shw (xs ! 1) = Inr lo \<and> \<not> isFinite lo) \<longrightarrow>
      normalizeRow conv shw now (Arr xs) h i \<noteq> Inr (Some p))
   \<and> (rowLat conv shw row = Inr la \<and> rowLon conv shw row = Inr lo
        \<and> rowTs conv shw now row h = Inr t \<and> (\<not> isFinite la \<or> \<not> isFinite lo) \<longrightarrow>
      normalizeRow conv shw now (Obj row) h i = Inr None)
   \<and> (2 \<le> length xs \<and> Number conv shw (xs ! 0) = Inr la \<and> Number conv shw (xs ! 1) = Inr lo
        \<and> (\<not> isFinite la \<or> \<not> isFinite lo) \<longrightarrow>
      normalizeRow conv shw now (Arr xs) h i = Inr None)
   \<and> (rowLat conv shw row = Inr (Fin x) \<and> rowLon conv shw row = Inr (Fin y)
        \<and> rowTs conv shw now row h = Inr t \<and> String shw (rowId shw row i) = Inr s \<longrightarrow>
      normalizeRow conv shw now (Obj row) h i = Inr (Some \<lparr>lat = x, lon = y, ts = t, pid = s\<rparr>))
   \<and> (2 \<le> length xs \<and> Number conv shw (xs ! 0) = Inr (Fin x)
        \<and> Number conv shw (xs ! 1) = Inr (Fin y) \<longrightarrow>
      normalizeRow conv shw now (Arr xs) h i
        = Inr (Some \<lparr>lat = x, lon = y, ts = synthTs now h, pid = synthId shw i\<rparr>))"
proof -
  have c1: "normalizeRow conv shw now (Obj row) h i = Inr (Some p) \<longrightarrow>
      rowLat conv shw row = Inr (Fin (lat p)) \<and> rowLon conv shw row = Inr (Fin (lon p))"
    by (simp only: normalizeRow_Obj_Some) simp
  have c2: "normalizeRow conv shw now (Arr xs) h i = Inr (Some p) \<longrightarrow>
      Number conv shw (xs ! 0) = Inr (Fin (lat p)) \<and> Number conv shw (xs ! 1) = Inr (Fin (lon p))"
    by (simp only: normalizeRow_Arr_Some) simp
  have c3: "(rowLat conv shw row = Inr la \<and> \<not> isFinite la)
        \<or> (rowLon conv shw row = Inr lo \<and> \<not> isFinite lo) \<longrightarrow>
      normalizeRow conv shw now (Obj row) h i \<noteq> Inr (Some p)"
    using c1 by auto
  have c4: "(Number conv shw (xs ! 0) = Inr la \<and> \<not> isFinite la)
        \<or> (Number conv shw (xs ! 1) = Inr lo \<and> \<not> isFinite lo) \<longrightarrow>
      normalizeRow conv shw now (Arr xs) h i \<noteq> Inr (Some p)"
    using c2 by auto
  have c5: "rowLat conv shw row = Inr la \<and> rowLon conv shw row = Inr lo
        \<and> rowTs conv shw now row h = Inr t \<and> (\<not> isFinite la \<or> \<not> isFinite lo) \<longrightarrow>
      normalizeRow conv shw now (Obj row) h i = Inr None"
    using normalizeRow_Obj_total [of conv shw row la lo now h t i] by auto
  have c6: "2 \<le> length xs \<and> Number conv shw (xs ! 0) = Inr la \<and> Number conv shw (xs ! 1) = Inr lo
        \<and> (\<not> isFinite la \<or> \<not> isFinite lo) \<longrightarrow>
      normalizeRow conv shw now (Arr xs) h i = Inr None"
    by (cases la; cases lo) auto
  have c7: "rowLat conv shw row = Inr (Fin x) \<and> rowLon conv shw row = Inr (Fin y)
        \<and> rowTs conv shw now row h = Inr t \<and> String shw (rowId shw row i) = Inr s \<longrightarrow>
      normalizeRow conv shw now (Obj row) h i = Inr (Some \<lparr>lat = x, lon = y, ts = t, pid = s\<rparr>)"
    by simp
  have c8: "2 \<le> length xs \<and> Number conv shw (xs ! 0) = Inr (Fin x)
        \<and> Number conv shw (xs ! 1) = Inr (Fin y) \<longrightarrow>
      normalizeRow conv shw now (Arr xs) h i
        = Inr (Some \<lparr>lat = x, lon = y, ts = synthTs now h, pid = synthId shw i\<rparr>)"
    by simp
  show ?thesis
    by (intro conjI c1 c2 c3 c4 c5 c6 c7 c8)
qed

theorem normalizeRow_accepts_exactly_finite_witness:
  "normalizeRow sampleConv sampleShow 1700000000
      (Obj [(''id'', Str ''a1''), (''lat'', Num (Fin 45)), (''lon'', Num (Fin 7)),
            (''ts'', Num (Fin 1699990000))]) 3 0
     = Inr (Some \<lparr>lat = 45, lon = 7, ts = 1699990000, pid = ''a1''\<rparr>)
   \<and> rowLat sampleConv sampleShow
        [(''id'', Str ''a1''), (''lat'', Num (Fin 45)), (''lon'', Num (Fin 7)),
         (''ts'', Num (Fin 1699990000))]
     = Inr (Fin 45)
   \<and> normalizeRow sampleConv sampleShow 1700000000
      (Arr [Num (Fin 45), Num (Fin 7)]) 3 0
     = Inr (Some \<lparr>lat = 45, lon = 7, ts = 1699989200, pid = ''b0''\<rparr>)
   \<and> Number sampleConv sampleShow ([Num (Fin 45), Num (Fin 7)] ! 1) = Inr (Fin 7)
   \<and> rowLat sampleConv sampleShow [(''lat'', Str ''north''), (''lon'', Num (Fin 7))] = Inr NaN
   \<and> \<not> isFinite NaN
   \<and> normalizeRow sampleConv sampleShow 1700000000
      (Obj [(''lat'', Str ''north''), (''lon'', Num (Fin 7))]) 3 0 = Inr None
   \<and> Number sampleConv sampleShow ([Num PInf, Num (Fin 7)] ! 0) = Inr PInf
   \<and> \<not> isFinite PInf
   \<and> normalizeRow sampleConv sampleShow 1700000000 (Arr [Num PInf, Num (Fin 7)]) 3 0 = Inr None
   \<and> Number sampleConv sampleShow ([Null, Null] ! 0) = Inr (Fin 0)
   \<and> normalizeRow sampleConv sampleShow 1700000000 (Arr [Null, Null]) 3 0
     = Inr (Some \<lparr>lat = 0, lon = 0, ts = 1699989200, pid = ''b0''\<rparr>)
   \<and> Number sampleConv sampleShow ([Str ''x'', Obj [(''toString'', Num (Fin 1))]] ! 1)
     = Inl TypeError
   \<and> normalizeRow sampleConv sampleShow 1700000000
        (Arr [Str ''x'', Obj [(''toString'', Num (Fin 1))]]) 3 0 = Inl TypeError"
  using normalizeRow_accepts_exactly_finite
    [of sampleConv sampleShow 1700000000
        "[(''id'', Str ''a1''), (''lat'', Num (Fin 45)), (''lon'', Num (Fin 7)),
          (''ts'', Num (Fin 1699990000))]" 3 0
        "\<lparr>lat = 45, lon = 7, ts = 1699990000, pid = ''a1''\<rparr>" "[Num (Fin 45), Num (Fin 7)]"
        "Fin 45" "Fin 7" 1699990000 45 7 "''a1''"]
    normalizeRow_accepts_exactly_finite
    [of sampleConv sampleShow 1700000000
        "[(''lat'', Str ''north''), (''lon'', Num (Fin 7))]" 3 0
        "\<lparr>lat = 45, lon = 7, ts = 1699990000, pid = ''a1''\<rparr>" "[Num PInf, Num (Fin 7)]"
        NaN "Fin 7" 0 45 7 "''a1''"]
    normalizeRow_accepts_exactly_finite
    [of sampleConv sampleShow 1700000000
        "[(''lat'', Str ''north''), (''lon'', Num (Fin 7))]" 3 0
        "\<lparr>lat = 45, lon = 7, ts = 1699990000, pid = ''a1''\<rparr>" "[Num PInf, Num (Fin 7)]"
        PInf "Fin 7" 0 45 7 "''a1''"]
    normalizeRow_accepts_exactly_finite
    [of sampleConv sampleShow 1700000000
        "[(''lat'', Str ''north''), (''lon'', Num (Fin 7))]" 3 0
        "\<lparr>lat = 45, lon = 7, ts = 1699990000, pid = ''a1''\<rparr>" "[Null, Null]"
        PInf "Fin 7" 0 0 0 "''a1''"]
  by (simp add: rowLat_def rowLon_def rowTs_def tsRaw_def rowId_def getProp_def coalesce_def
      synthTs_def synthId_def sampleConv_def sampleShow_def decimal.simps)

text \<open>
  C1, the claim as stated, fails: the keyed row \<open>{id: "a1", lat: 100, lon: 200, ts: 5}\<close> is
  accepted, and its Point has latitude 100 and longitude 200.
\<close>

theorem normalizeRow_range_counterexample:
  "normalizeRow sampleConv sampleShow 1700000000
      (Obj [(''id'', Str ''a1''), (''lat'', Num (Fin 100)), (''lon'', Num (Fin 200)),
            (''ts'', Num (Fin 5))]) 0 0
     = Inr (Some \<lparr>lat = 100, lon = 200, ts = 5, pid = ''a1''\<rparr>)
   \<and> \<not> (lat \<lparr>lat = 100, lon = 200, ts = 5, pid = ''a1''\<rparr> \<le> 90)
   \<and> \<not> (lon \<lparr>lat = 100, lon = 200, ts = 5, pid = ''a1''\<rparr> \<le> 180)"
  by (simp add: rowLat_def rowLon_def rowTs_def tsRaw_def rowId_def getProp_def coalesce_def)

text \<open>
  A conversion of a parsed object with an own property \<open>toString\<close> throws, and the
  exception leaves \<open>normalizeRow\<close>.
\<close>

lemma normalizeRow_conversion_throws:
  "normalizeRow conv shw now (Arr [Str ''x'', Obj [(''toString'', Num (Fin 1))]]) h i
     = Inl TypeError"
  "normalizeRow conv shw now
     (Obj [(''id'', Obj [(''toString'', Num (Fin 1))]), (''lat'', Num (Fin 1)),
           (''lon'', Num (Fin 2)), (''ts'', Num (Fin 5))]) h i
     = Inl TypeError"
  by (simp_all add: rowLat_def rowLon_def rowTs_def tsRaw_def rowId_def getProp_def coalesce_def)

lemma tsRaw_absent:
  "nullish (getProp row ''ts'') \<Longrightarrow> nullish (getProp row ''timestamp'') \<Longrightarrow>
   nullish (getProp row ''time'') \<Longrightarrow> tsRaw row = Null"
  by (simp add: tsRaw_def coalesce_def)

text \<open>
  A keyed record without a usable time key: \<open>tsRaw\<close> is \<open>null\<close>, \<open>Number(null)\<close> is the finite
  number 0, and the timestamp of the accepted Point is 0, for every hour index.
\<close>

lemma normalizeRow_no_time_key:
  "nullish (getProp row ''ts'') \<Longrightarrow> nullish (getProp row ''timestamp'') \<Longrightarrow>
   nullish (getProp row ''time'') \<Longrightarrow>
   normalizeRow conv shw now (Obj row) h i = Inr (Some p) \<Longrightarrow> ts p = 0"
  by (simp only: normalizeRow_Obj_Some) (simp add: rowTs_def tsRaw_absent)

text \<open>A positional row that is accepted always has the synthesized timestamp.\<close>

lemma normalizeRow_positional_ts:
  "normalizeRow conv shw now (Arr xs) h i = Inr (Some p) \<Longrightarrow> ts p = synthTs now h"
  by (simp only: normalizeRow_Arr_Some)

text \<open>
  C2. The keyed record \<open>{id: "a1", lat: 10, lon: 20}\<close> has none of the keys \<open>ts\<close>,
  \<open>timestamp\<close>, \<open>time\<close>. At hour index 3 and clock 1700000000 its Point has timestamp 0, where
  the claim has \<open>now - 3 * 3600 = 1699989200\<close>.
\<close>

theorem normalizeRow_missing_time_evaluates_to_zero:
  "normalizeRow sampleConv sampleShow 1700000000
      (Obj [(''id'', Str ''a1''), (''lat'', Num (Fin 10)), (''lon'', Num (Fin 20))]) 3 0
     = Inr (Some \<lparr>lat = 10, lon = 20, ts = 0, pid = ''a1''\<rparr>)
   \<and> synthTs 1700000000 3 = 1699989200"
  by (simp add: rowLat_def rowLon_def rowTs_def tsRaw_def rowId_def getProp_def coalesce_def
      synthTs_def)

section \<open>Properties of the arithmetic\<close>

lemma pow2_powr: "pow2 e = 2 powr (real_of_int e)"
  by (auto simp: pow2_def powr_realpow [symmetric] powr_minus divide_inverse)

lemma pow2_pos: "0 < pow2 e"
  by (simp add: pow2_def)

lemma expo_binade:
  assumes "pow2 e \<le> \<bar>x\<bar>" "\<bar>x\<bar> < pow2 (e + 1)" "- 1022 \<le> e"
  shows "expo x = e"
proof -
  have pos: "0 < \<bar>x\<bar>" using assms(1) pow2_pos [of e] by linarith
  have "\<lfloor>log 2 \<bar>x\<bar>\<rfloor> = e"
    using assms(1,2) pos by (simp add: floor_log_eq_powr_iff pow2_powr)
  then show ?thesis using assms(3) by (simp add: expo_def)
qed

text \<open>Rounding a number whose binary exponent is known.\<close>

lemma rd_binade:
  assumes "pow2 e \<le> \<bar>x\<bar>" "\<bar>x\<bar> < pow2 (e + 1)" "- 1022 \<le> e"
  shows "rd x =
     (let y = pow2 (e - 52) * real_of_int (roundEven (x / pow2 (e - 52)))
      in if 2 ^ 1024 \<le> \<bar>y\<bar> then (if 0 < x then PInf else NInf) else Fin y)"
proof -
  have "x \<noteq> 0" using assms(1) pow2_pos [of e] by auto
  then show ?thesis
    using expo_binade [OF assms] by (simp add: rd_def Let_def)
qed

lemma rd_0: "rd 0 = Fin 0"
  by (simp add: rd_def)

lemma jadd_NaN: "jadd a NaN = NaN"
  by (cases a) simp_all

lemma jmul_NaN: "jmul a NaN = NaN"
  by (cases a) simp_all

lemma jdiv_NaN: "jdiv a NaN = NaN"
  by (cases a) simp_all

text \<open>The literals \<open>0.4\<close> and \<open>0.2\<close>.\<close>

lemma rd_04: "rd (4 / 10) = Fin (3602879701896397 / 9007199254740992)"
  by (subst rd_binade [of "- 2"]) (simp_all add: pow2_def roundEven_def Let_def)

lemma rd_02: "rd (2 / 10) = Fin (3602879701896397 / 18014398509481984)"
  by (subst rd_binade [of "- 3"]) (simp_all add: pow2_def roundEven_def Let_def)

text \<open>
  The operations of \<open>computeRisk\<close> at a drift of 8.75 km/h with no wind data: \<open>8.75 / 100\<close>,
  \<open>0.4 * d\<close>, the two sums with 0, which change nothing, and \<open>* 100\<close>, which comes to
  \<open>3.4999999999999996\<close>.
\<close>

lemma rd_d: "rd ((35 / 4) / 100) = Fin (3152519739159347 / 36028797018963968)"
  by (subst rd_binade [of "- 4"]) (simp_all add: pow2_def roundEven_def Let_def)

lemma rd_q2:
  "rd ((3602879701896397 / 9007199254740992) * (3152519739159347 / 36028797018963968))
     = Fin (5044031582654955 / 144115188075855872)"
  by (subst rd_binade [of "- 5"]) (simp_all add: pow2_def roundEven_def Let_def)

lemma rd_q2_0:
  "rd (5044031582654955 / 144115188075855872 + 0) = Fin (5044031582654955 / 144115188075855872)"
  by (subst rd_binade [of "- 5"]) (simp_all add: pow2_def roundEven_def Let_def)

lemma rd_q3:
  "rd ((5044031582654955 / 144115188075855872) * 100)
     = Fin (7881299347898367 / 2251799813685248)"
  by (subst rd_binade [of 1]) (simp_all add: pow2_def roundEven_def Let_def)

text \<open>The product \<open>2^1023 * Math.PI\<close> overflows.\<close>

lemma rd_over: "rd (2 ^ 1023 * (884279719003555 / 281474976710656)) = PInf"
  by (subst rd_binade [of 1024]) (simp_all add: pow2_def roundEven_def Let_def)

lemma toRad_overflow: "toRad (Fin (2 ^ 1023)) = PInf"
  by (simp only: toRad_def MathPI_def jmul.simps rd_over) simp

lemma toRad_0: "toRad (Fin 0) = Fin 0"
  by (simp add: toRad_def MathPI_def rd_0)

section \<open>Properties of the risk model\<close>

lemma computeRisk_None: "computeRisk r = None \<longleftrightarrow> driftKmh r = None"
  by (simp add: computeRisk_def Let_def split: option.splits)

lemma computeRisk_no_winds:
  assumes "driftKmh tr = Some d" "wind500 tr = None" "dir500 tr = None" "wind700 tr = None"
    "dir700 tr = None"
  shows "computeRisk tr =
     Some (mathRound
        (jmul (jadd (jadd (jmul (rd (4 / 10)) (mathMin (jdiv d (Fin 100)) (Fin 1)))
                       (jmul (rd (4 / 10)) (Fin 0)))
                 (jmul (rd (2 / 10)) (Fin 0)))
           (Fin 100)))"
proof -
  have "mismatch tr = None" "shear tr = None"
    using assms
    by (simp_all add: mismatch_def useDir_def angleDelta_def shear_def split: option.splits)
  then show ?thesis
    using assms(1) by (simp add: computeRisk_def driftPart_def mismatchPart_def shearPart_def)
qed

text \<open>A drift that is NaN gives a risk that is NaN, whatever the wind data.\<close>

lemma computeRisk_NaN: "driftKmh r = Some NaN \<Longrightarrow> computeRisk r = Some NaN"
  by (simp add: computeRisk_def Let_def driftPart_def mathMin_def jmul_NaN)

text \<open>
  Two points at latitude \<open>2^1023\<close>: \<open>toRad\<close> overflows to \<open>+\<infinity>\<close>, whose cosine is NaN, and
  the distance is NaN with every engine.
\<close>

lemma haversineMeters_overflow:
  "toRad (Fin (lat a)) = PInf \<Longrightarrow> haversineMeters lib a b = NaN"
  by (simp only: haversineMeters_def Let_def mathCos.simps jmul.simps jadd_NaN jmul_NaN
      mathSqrt.simps mathAsin.simps)

lemma buildTrack_overflow:
  assumes "toRad (Fin la) = PInf"
  shows "driftKmh (buildTrack lib label nowSec
      (k, [\<lparr>lat = la, lon = x, ts = s\<rparr>, \<lparr>lat = lb, lon = y, ts = t\<rparr>])) = Some NaN"
  using assms by (simp add: buildTrack_def Let_def haversineMeters_overflow)

section \<open>Properties of the wind lookup\<close>

lemma fetchWinds_last_entry:
  assumes "time hr = Some t" "t \<noteq> []"
  shows "fetchWinds (Http True (Doc (Some hr))) =
           Some \<lparr>wind500 = seriesAt (windspeed_500hPa hr) (length t - 1),
                 dir500 = seriesAt (winddirection_500hPa hr) (length t - 1),
                 wind700 = seriesAt (windspeed_700hPa hr) (length t - 1),
                 dir700 = seriesAt (winddirection_700hPa hr) (length t - 1)\<rparr>"
  using assms by (simp add: fetchWinds_def timeLength_def Let_def)

lemma fetchWinds_caught:
  "(\<exists>e. fetchWindsTry r = Inl e \<and> fetchWinds r = None)
   \<or> (\<exists>w. fetchWindsTry r = Inr w \<and> fetchWinds r = w)"
  by (cases "fetchWindsTry r") (simp_all add: fetchWinds_def)

text \<open>
  C7. The wind lookup gives the empty result when the request throws, when the status is
  not a success, when the body does not parse or is \<open>null\<close>, and when the hourly object, its
  time series or the entries of the time series are missing; an exception of its \<open>try\<close>
  block always ends as the empty result. Otherwise each field is the entry at index
  \<open>length(time) - 1\<close> of its series, which is the last entry of a series as long as \<open>time\<close>.
\<close>

theorem fetchWinds_empty_or_last:
  "fetchWinds Failed = None
   \<and> fetchWinds (Http False b) = None
   \<and> fetchWinds (Http True Unparsable) = None
   \<and> fetchWinds (Http True NullBody) = None
   \<and> fetchWinds (Http True (Doc None)) = None
   \<and> (time hr = None \<or> time hr = Some [] \<longrightarrow> fetchWinds (Http True (Doc (Some hr))) = None)
   \<and> ((\<exists>e. fetchWindsTry r = Inl e \<and> fetchWinds r = None)
        \<or> (\<exists>w. fetchWindsTry r = Inr w \<and> fetchWinds r = w))
   \<and> (time hr = Some t \<and> t \<noteq> [] \<longrightarrow>
        fetchWinds (Http True (Doc (Some hr))) =
          Some \<lparr>wind500 = seriesAt (windspeed_500hPa hr) (length t - 1),
                dir500 = seriesAt (winddirection_500hPa hr) (length t - 1),
                wind700 = seriesAt (windspeed_700hPa hr) (length t - 1),
                dir700 = seriesAt (winddirection_700hPa hr) (length t - 1)\<rparr>)
   \<and> (t \<noteq> [] \<and> length xs = length t \<longrightarrow> seriesAt (Some xs) (length t - 1) = last xs)"
proof -
  have "fetchWinds (Http False b) = None"
    by (cases b) (simp_all add: fetchWinds_def)
  moreover have "time hr = None \<or> time hr = Some [] \<longrightarrow>
      fetchWinds (Http True (Doc (Some hr))) = None"
    by (auto simp: fetchWinds_def timeLength_def)
  moreover have "t \<noteq> [] \<and> length xs = length t \<longrightarrow> seriesAt (Some xs) (length t - 1) = last xs"
  proof (intro impI, elim conjE)
    assume t: "t \<noteq> []" and l: "length xs = length t"
    then have "xs \<noteq> []" by auto
    then have "last xs = xs ! (length t - 1)" using l by (simp add: last_conv_nth)
    then show "seriesAt (Some xs) (length t - 1) = last xs"
      using t l by (simp add: seriesAt_def)
  qed
  moreover have "fetchWinds Failed = None" "fetchWinds (Http True Unparsable) = None"
    "fetchWinds (Http True NullBody) = None" "fetchWinds (Http True (Doc None)) = None"
    by (simp_all add: fetchWinds_def timeLength_def)
  ultimately show ?thesis
    using fetchWinds_caught [of r] fetchWinds_last_entry [of hr t] by blast
qed

theorem fetchWinds_empty_or_last_witness:
  "fetchWinds (Http True (Doc (Some
      \<lparr>time = Some [], windspeed_500hPa = Some [], winddirection_500hPa = Some [],
        windspeed_700hPa = Some [], winddirection_700hPa = Some []\<rparr>))) = None
   \<and> fetchWindsTry (Http True NullBody) = Inl TypeError
   \<and> fetchWinds (Http True NullBody) = None
   \<and> fetchWinds (Http True (Doc (Some
      \<lparr>time = Some [''t0'', ''t1''], windspeed_500hPa = Some [Some 11, Some 12],
        winddirection_500hPa = Some [Some 200, Some 210],
        windspeed_700hPa = Some [Some 7, None], winddirection_700hPa = None\<rparr>)))
     = Some \<lparr>wind500 = Some 12, dir500 = Some 210, wind700 = None, dir700 = None\<rparr>
   \<and> seriesAt (Some [Some 11, Some 12]) (length [''t0'', ''t1''] - 1) = last [Some 11, Some 12]"
  using fetchWinds_empty_or_last
    [of NullBody
        "\<lparr>time = Some [], windspeed_500hPa = Some [], winddirection_500hPa = Some [],
          windspeed_700hPa = Some [], winddirection_700hPa = Some []\<rparr>"
        "Http True NullBody" "[]" "[]"]
    fetchWinds_empty_or_last
    [of NullBody
        "\<lparr>time = Some [''t0'', ''t1''], windspeed_500hPa = Some [Some 11, Some 12],
          winddirection_500hPa = Some [Some 200, Some 210],
          windspeed_700hPa = Some [Some 7, None], winddirection_700hPa = None\<rparr>"
        "Http True NullBody" "[''t0'', ''t1'']" "[Some 11, Some 12]"]
  by (simp add: seriesAt_def)

section \<open>Properties of the enrichment loop\<close>

lemma batchResults_nth:
  assumes "i \<le> length items"
  shows "batchResults net items batchSize i =
           map (\<lambda>k. enrichOne (net k) (items ! k)) [i ..< min (i + batchSize) (length items)]"
proof (rule nth_equalityI)
  show "length (batchResults net items batchSize i) =
        length (map (\<lambda>k. enrichOne (net k) (items ! k)) [i ..< min (i + batchSize) (length items)])"
    using assms by (auto simp: batchResults_def batchAt_def)
next
  fix j assume "j < length (batchResults net items batchSize i)"
  then have j: "j < batchSize" "j < length items - i"
    by (auto simp: batchResults_def batchAt_def)
  then have "i + j < min (i + batchSize) (length items)"
    by simp
  then have "[i ..< min (i + batchSize) (length items)] ! j = i + j"
    by (rule nth_upt)
  then show "batchResults net items batchSize i ! j =
        map (\<lambda>k. enrichOne (net k) (items ! k)) [i ..< min (i + batchSize) (length items)] ! j"
    using assms j by (simp add: batchResults_def batchAt_def nth_enumerate_eq)
qed

lemma upt_split: "i \<le> j \<Longrightarrow> j \<le> n \<Longrightarrow> [i ..< n] = [i ..< j] @ [j ..< n]"
  by (metis le_Suc_ex upt_add_eq_append)

lemma enrichLoop_total:
  assumes "0 < batchSize"
  shows "i \<le> length items \<Longrightarrow>
         enrichLoop net items batchSize i out =
           Some (out @ map (\<lambda>k. enrichOne (net k) (items ! k)) [i ..< length items])"
proof (induction "length items - i" arbitrary: i out rule: less_induct)
  case less
  show ?case
  proof (cases "i < length items")
    case False
    then show ?thesis using less.prems by (subst enrichLoop.simps) simp
  next
    case True
    let ?j = "min (i + batchSize) (length items)"
    have split: "[i ..< length items] = [i ..< ?j] @ [?j ..< length items]"
      using True by (intro upt_split) auto
    show ?thesis
    proof (cases "i + batchSize \<le> length items")
      case le: True
      have "enrichLoop net items batchSize (i + batchSize) (out @ batchResults net items batchSize i)
            = Some ((out @ batchResults net items batchSize i)
                @ map (\<lambda>k. enrichOne (net k) (items ! k)) [i + batchSize ..< length items])"
        using assms True le by (intro less.hyps) auto
      then show ?thesis
        using True le split less.prems
        by (subst enrichLoop.simps) (simp add: batchResults_nth min_def)
    next
      case gt: False
      have "enrichLoop net items batchSize (i + batchSize) (out @ batchResults net items batchSize i)
            = Some (out @ batchResults net items batchSize i)"
        using gt by (subst enrichLoop.simps) simp
      then show ?thesis
        using True gt less.prems
        by (subst enrichLoop.simps) (simp add: batchResults_nth min_def)
    qed
  qed
qed

lemma enrichInBatches_total:
  "0 < batchSize \<Longrightarrow>
   enrichInBatches net items batchSize =
     Some (map (\<lambda>k. enrichOne (net k) (items ! k)) [0 ..< length items])"
  by (simp add: enrichInBatches_def enrichLoop_total)

text \<open>With a batch size of 0 the loop over a list that is not empty does not end.\<close>

lemma enrichLoop_diverges:
  "enrichLoop net items 0 i out = None" if "i < length items"
proof (rule ccontr)
  assume "enrichLoop net items 0 i out \<noteq> None"
  then obtain y where y: "enrichLoop net items 0 i out = Some y" by auto
  have "0 = (0::nat) \<longrightarrow> i < length items \<longrightarrow> False"
  proof (rule enrichLoop.raw_induct
          [where P = "\<lambda>n its b j acc z. b = 0 \<longrightarrow> j < length its \<longrightarrow> False", OF _ y],
         goal_cases)
    case (1 f n its b j acc z)
    show ?case
    proof (intro impI)
      assume b: "b = 0" and j: "j < length its"
      with 1(2) have "f n its b (j + b) (acc @ batchResults n its b j) = Some z"
        by simp
      from 1(1) [OF this] b j show False by simp
    qed
  qed
  with that show False by simp
qed

lemma enrichOne_Fulfilled:
  "enrichOne resp tr = Fulfilled (tid tr,
     if points tr = [] then EmptyPatch
     else Patch (fetchWinds resp) (computeRisk (withWinds tr (fetchWinds resp))))"
  by (simp add: enrichOne_def Let_def)

lemma fulfilledValues_map:
  "(\<And>x. x \<in> set xs \<Longrightarrow> f x = Fulfilled (g x)) \<Longrightarrow> fulfilledValues (map f xs) = map g xs"
  by (induction xs) auto

lemma enrich_keys:
  assumes "0 < batchSize" "enrichInBatches net items batchSize = Some results"
  shows "map fst (fulfilledValues results) = map tid items"
proof -
  have r: "results = map (\<lambda>k. enrichOne (net k) (items ! k)) [0 ..< length items]"
    using assms enrichInBatches_total by simp
  have "fulfilledValues results
        = map (\<lambda>k. (tid (items ! k),
             if points (items ! k) = [] then EmptyPatch
             else Patch (fetchWinds (net k))
                    (computeRisk (withWinds (items ! k) (fetchWinds (net k))))))
            [0 ..< length items]"
    unfolding r by (rule fulfilledValues_map) (rule enrichOne_Fulfilled)
  then have "map fst (fulfilledValues results) = map (\<lambda>k. tid (items ! k)) [0 ..< length items]"
    by (simp add: comp_def)
  also have "\<dots> = map tid items"
    by (rule nth_equalityI) auto
  finally show ?thesis .
qed

section \<open>Properties of the merge\<close>

lemma withWinds_frame:
  "driftKmh (withWinds tr w) = driftKmh tr \<and> headingDeg (withWinds tr w) = headingDeg tr
   \<and> tid (withWinds tr w) = tid tr \<and> points (withWinds tr w) = points tr
   \<and> risk (withWinds tr w) = risk tr
   \<and> stale (withWinds tr w) = stale tr \<and> ageSec (withWinds tr w) = ageSec tr
   \<and> ageLabel (withWinds tr w) = ageLabel tr
   \<and> gapKm (withWinds tr w) = gapKm tr \<and> gap (withWinds tr w) = gap tr"
  by (cases w) (simp_all add: withWinds_def)

lemma applyPatch_frame:
  "driftKmh (applyPatch tr p) = driftKmh tr \<and> headingDeg (applyPatch tr p) = headingDeg tr
   \<and> tid (applyPatch tr p) = tid tr \<and> points (applyPatch tr p) = points tr
   \<and> stale (applyPatch tr p) = stale tr \<and> ageSec (applyPatch tr p) = ageSec tr
   \<and> ageLabel (applyPatch tr p) = ageLabel tr
   \<and> gapKm (applyPatch tr p) = gapKm tr \<and> gap (applyPatch tr p) = gap tr"
  by (cases p) (simp_all add: withWinds_frame)

lemma mergeTracks_length: "length (mergeTracks results prev) = length prev"
  by (simp add: mergeTracks_def)

lemma mergeTracks_nth:
  "i < length prev \<Longrightarrow>
   mergeTracks results prev ! i =
     applyPatch (prev ! i)
       (case fromEntries (fulfilledValues results) (tid (prev ! i)) of
          Some p \<Rightarrow> p | None \<Rightarrow> EmptyPatch)"
  by (simp add: mergeTracks_def)

lemma fromEntries_None: "fromEntries kvs k = None \<longleftrightarrow> k \<notin> fst ` set kvs"
  by (simp add: fromEntries_def map_of_eq_None_iff)

lemma mergeTracks_absent:
  "i < length prev \<Longrightarrow> tid (prev ! i) \<notin> fst ` set (fulfilledValues results) \<Longrightarrow>
   mergeTracks results prev ! i = prev ! i"
  by (simp add: mergeTracks_nth fromEntries_None [THEN iffD2])

lemma outside_subset_absent:
  assumes "distinct (map tid list)" "subsetSize \<le> j" "j < length list"
  shows "tid (list ! j) \<notin> set (map tid (take subsetSize list))"
proof
  assume "tid (list ! j) \<in> set (map tid (take subsetSize list))"
  then obtain i where i: "i < length (take subsetSize list)"
      "map tid (take subsetSize list) ! i = tid (list ! j)"
    by (metis in_set_conv_nth length_map)
  then have "i < subsetSize" "i < length list" by auto
  then have "map tid list ! i = map tid list ! j" "i \<noteq> j"
    using i assms by auto
  then show False
    using assms \<open>i < length list\<close> by (simp add: distinct_conv_nth)
qed

lemma enrichPhase_outside:
  assumes "0 < batchSize" "distinct (map tid list)" "subsetSize \<le> j" "j < length list"
  shows "\<exists>tracks. enrichPhase net subsetSize batchSize list = Some tracks
           \<and> length tracks = length list \<and> tracks ! j = list ! j"
proof -
  obtain results where r: "enrichInBatches net (take subsetSize list) batchSize = Some results"
    using assms(1) enrichInBatches_total by blast
  have "fst ` set (fulfilledValues results) = set (map tid (take subsetSize list))"
    using enrich_keys [OF assms(1) r] by (metis set_map)
  then have "tid (list ! j) \<notin> fst ` set (fulfilledValues results)"
    using outside_subset_absent [OF assms(2-4)] by simp
  then have "mergeTracks results list ! j = list ! j"
    using assms(4) by (rule mergeTracks_absent [rotated])
  then show ?thesis
    using r by (simp add: enrichPhase_def mergeTracks_length)
qed

text \<open>
  C9. The merge leaves the number and order of the trajectories as they are. A trajectory
  whose id is not a key of the enrichment result is returned identical, and for every
  trajectory the id, the points, drift and heading, and the staleness, age and gap fields
  are the ones it had before the merge. After the enrichment phase, with ids that are
  pairwise distinct, every trajectory beyond the first \<open>subsetSize\<close> is identical to the one
  the build phase produced.
\<close>

theorem mergeTracks_keyed_frame:
  "length (mergeTracks results prev) = length prev
   \<and> (i < length prev \<and> tid (prev ! i) \<notin> fst ` set (fulfilledValues results) \<longrightarrow>
        mergeTracks results prev ! i = prev ! i)
   \<and> (i < length prev \<longrightarrow>
        tid (mergeTracks results prev ! i) = tid (prev ! i)
        \<and> points (mergeTracks results prev ! i) = points (prev ! i)
        \<and> driftKmh (mergeTracks results prev ! i) = driftKmh (prev ! i)
        \<and> headingDeg (mergeTracks results prev ! i) = headingDeg (prev ! i)
        \<and> stale (mergeTracks results prev ! i) = stale (prev ! i)
        \<and> ageSec (mergeTracks results prev ! i) = ageSec (prev ! i)
        \<and> ageLabel (mergeTracks results prev ! i) = ageLabel (prev ! i)
        \<and> gapKm (mergeTracks results prev ! i) = gapKm (prev ! i)
        \<and> gap (mergeTracks results prev ! i) = gap (prev ! i))
   \<and> (0 < batchSize \<and> distinct (map tid list) \<and> subsetSize \<le> j \<and> j < length list \<longrightarrow>
        (\<exists>tracks. enrichPhase net subsetSize batchSize list = Some tracks
           \<and> length tracks = length list \<and> tracks ! j = list ! j))"
  using mergeTracks_length [of results prev] mergeTracks_absent [of i prev results]
    mergeTracks_nth [of i prev results]
    applyPatch_frame [of "prev ! i" "case fromEntries (fulfilledValues results) (tid (prev ! i)) of
          Some p \<Rightarrow> p | None \<Rightarrow> EmptyPatch"]
    enrichPhase_outside [of batchSize list subsetSize j net]
  by simp

theorem mergeTracks_keyed_frame_witness:
  "tid ([sampleTrack ''a'' [samplePoint] (Some (Fin 50)), sampleTrack ''b'' [] None] ! 1)
     \<notin> fst ` set (fulfilledValues [Fulfilled (''a'', Patch None (Some (Fin 20)))])
   \<and> mergeTracks [Fulfilled (''a'', Patch None (Some (Fin 20)))]
        [sampleTrack ''a'' [samplePoint] (Some (Fin 50)), sampleTrack ''b'' [] None] ! 1
      = sampleTrack ''b'' [] None
   \<and> mergeTracks [Fulfilled (''a'', Patch None (Some (Fin 20)))]
        [sampleTrack ''a'' [samplePoint] (Some (Fin 50)), sampleTrack ''b'' [] None] ! 0
      = (sampleTrack ''a'' [samplePoint] (Some (Fin 50)))\<lparr>risk := Some (Fin 20)\<rparr>
   \<and> points (mergeTracks [Fulfilled (''a'', Patch None (Some (Fin 20)))]
        [sampleTrack ''a'' [samplePoint] (Some (Fin 50)), sampleTrack ''b'' [] None] ! 0)
      = [samplePoint]
   \<and> distinct (map tid [sampleTrack ''a'' [samplePoint] (Some (Fin 50)), sampleTrack ''b'' [] None])
   \<and> (\<exists>tracks. enrichPhase sampleNet 1 25
          [sampleTrack ''a'' [samplePoint] (Some (Fin 50)), sampleTrack ''b'' [] None] = Some tracks
        \<and> tracks ! 1 = sampleTrack ''b'' [] None)"
  using mergeTracks_keyed_frame
    [of "[Fulfilled (''a'', Patch None (Some (Fin 20)))]"
        "[sampleTrack ''a'' [samplePoint] (Some (Fin 50)), sampleTrack ''b'' [] None]" 1
        25 "[sampleTrack ''a'' [samplePoint] (Some (Fin 50)), sampleTrack ''b'' [] None]" 1 1 sampleNet]
    mergeTracks_keyed_frame
    [of "[Fulfilled (''a'', Patch None (Some (Fin 20)))]"
        "[sampleTrack ''a'' [samplePoint] (Some (Fin 50)), sampleTrack ''b'' [] None]" 0
        25 "[sampleTrack ''a'' [samplePoint] (Some (Fin 50)), sampleTrack ''b'' [] None]" 1 1 sampleNet]
  by (auto simp: sampleTrack_def mergeTracks_def fromEntries_def withWinds_def)

section \<open>Risk of an enriched trajectory\<close>

text \<open>
  The risk at a drift of 8.75 km/h with no wind data, as \<open>computeRisk\<close> computes it: 3.
\<close>

lemma risk_at_8_75:
  "mathRound
     (jmul (jadd (jadd (jmul (rd (4 / 10)) (mathMin (jdiv (Fin (35 / 4)) (Fin 100)) (Fin 1)))
                    (jmul (rd (4 / 10)) (Fin 0)))
              (jmul (rd (2 / 10)) (Fin 0)))
        (Fin 100))
   = Fin 3"
proof -
  have a: "jdiv (Fin (35 / 4)) (Fin 100) = Fin (3152519739159347 / 36028797018963968)"
    by (simp only: jdiv.simps rd_d) simp
  have b: "mathMin (Fin (3152519739159347 / 36028797018963968)) (Fin 1)
             = Fin (3152519739159347 / 36028797018963968)"
    by (simp add: mathMin_def)
  have c: "jmul (rd (4 / 10)) (Fin (3152519739159347 / 36028797018963968))
             = Fin (5044031582654955 / 144115188075855872)"
    by (simp only: rd_04 jmul.simps rd_q2)
  have z4: "jmul (rd (4 / 10)) (Fin 0) = Fin 0"
    by (simp only: rd_04 jmul.simps) (simp add: rd_0)
  have z2: "jmul (rd (2 / 10)) (Fin 0) = Fin 0"
    by (simp only: rd_02 jmul.simps) (simp add: rd_0)
  have s: "jadd (Fin (5044031582654955 / 144115188075855872)) (Fin 0)
             = Fin (5044031582654955 / 144115188075855872)"
    by (simp only: jadd.simps rd_q2_0)
  have m: "jmul (Fin (5044031582654955 / 144115188075855872)) (Fin 100)
             = Fin (7881299347898367 / 2251799813685248)"
    by (simp only: jmul.simps rd_q3)
  have r: "mathRound (Fin (7881299347898367 / 2251799813685248)) = Fin 3"
    by simp
  show ?thesis
    by (simp only: a b c z4 z2 s m r)
qed

text \<open>The closed form \<open>round(40 * min(driftKmh / 100, 1))\<close> at the same drift: 4.\<close>

lemma rd_40d: "rd (40 * (3152519739159347 / 36028797018963968)) = Fin (7 / 2)"
  by (subst rd_binade [of 1]) (simp_all add: pow2_def roundEven_def Let_def)

lemma closed_form_at_8_75:
  "mathRound (jmul (Fin 40) (mathMin (jdiv (Fin (35 / 4)) (Fin 100)) (Fin 1))) = Fin 4"
proof -
  have a: "jdiv (Fin (35 / 4)) (Fin 100) = Fin (3152519739159347 / 36028797018963968)"
    by (simp only: jdiv.simps rd_d) simp
  have b: "mathMin (Fin (3152519739159347 / 36028797018963968)) (Fin 1)
             = Fin (3152519739159347 / 36028797018963968)"
    by (simp add: mathMin_def)
  have c: "jmul (Fin 40) (Fin (3152519739159347 / 36028797018963968)) = Fin (7 / 2)"
    by (simp only: jmul.simps rd_40d)
  have r: "mathRound (Fin (7 / 2)) = Fin 4"
    by simp
  show ?thesis
    by (simp only: a b c r)
qed

lemma buildTrack_no_winds:
  "wind500 (buildTrack lib label nowSec e) = None \<and> dir500 (buildTrack lib label nowSec e) = None
   \<and> wind700 (buildTrack lib label nowSec e) = None \<and> dir700 (buildTrack lib label nowSec e) = None
   \<and> risk (buildTrack lib label nowSec e) = None"
  by (simp add: buildTrack_def Let_def)

lemma buildList_no_winds:
  assumes "k < length (buildList lib label nowSec grouped)"
  shows "wind500 (buildList lib label nowSec grouped ! k) = None
   \<and> dir500 (buildList lib label nowSec grouped ! k) = None
   \<and> wind700 (buildList lib label nowSec grouped ! k) = None
   \<and> dir700 (buildList lib label nowSec grouped ! k) = None
   \<and> risk (buildList lib label nowSec grouped ! k) = None"
  using assms by (simp add: buildList_def buildTrack_no_winds)

lemma enrichInBatches_nth:
  assumes "0 < batchSize" "k < length items"
  shows "\<exists>results. enrichInBatches net items batchSize = Some results
           \<and> length results = length items \<and> results ! k = enrichOne (net k) (items ! k)"
  using assms by (simp add: enrichInBatches_total)

text \<open>
  C10 (as amended). The enrichment call of a trajectory with a point and a present drift
  is fulfilled with a present risk, whatever the wind request comes to; when the wind
  result is empty and the trajectory carries no wind field, as every trajectory of the
  build phase does, that risk is \<open>round((0.4 * min(driftKmh / 100, 1) + 0.4 * 0 + 0.2 * 0) * 100)\<close>
  in the arithmetic of the language, operation by operation, and the wind fields of the
  result are absent. A trajectory without points gives the empty result, and one with
  points and no drift a result whose risk is absent. In the loop, result \<open>k\<close> is the
  result of this call for item \<open>k\<close> of the subset.
\<close>

theorem enrichOne_risk_present_without_winds:
  "(points tr \<noteq> [] \<and> driftKmh tr = Some d \<longrightarrow>
      (\<exists>k. enrichOne resp tr = Fulfilled (tid tr, Patch (fetchWinds resp) (Some k))))
   \<and> (points tr \<noteq> [] \<and> driftKmh tr = Some d \<and> fetchWinds resp = None
        \<and> wind500 tr = None \<and> dir500 tr = None \<and> wind700 tr = None \<and> dir700 tr = None \<longrightarrow>
      enrichOne resp tr = Fulfilled (tid tr, Patch None (Some (mathRound
        (jmul (jadd (jadd (jmul (rd (4 / 10)) (mathMin (jdiv d (Fin 100)) (Fin 1)))
                       (jmul (rd (4 / 10)) (Fin 0)))
                 (jmul (rd (2 / 10)) (Fin 0)))
           (Fin 100))))))
   \<and> (points tr = [] \<longrightarrow> enrichOne resp tr = Fulfilled (tid tr, EmptyPatch))
   \<and> (points tr \<noteq> [] \<and> driftKmh tr = None \<longrightarrow>
      enrichOne resp tr = Fulfilled (tid tr, Patch (fetchWinds resp) None))
   \<and> (0 < batchSize \<and> n < length (take subsetSize (buildList lib label nowSec grouped)) \<longrightarrow>
      (\<exists>results.
          enrichInBatches net (take subsetSize (buildList lib label nowSec grouped)) batchSize
            = Some results
          \<and> results ! n = enrichOne (net n) (buildList lib label nowSec grouped ! n))
      \<and> wind500 (buildList lib label nowSec grouped ! n) = None
      \<and> dir500 (buildList lib label nowSec grouped ! n) = None
      \<and> wind700 (buildList lib label nowSec grouped ! n) = None
      \<and> dir700 (buildList lib label nowSec grouped ! n) = None)"
proof -
  have a: "points tr \<noteq> [] \<and> driftKmh tr = Some d \<longrightarrow>
      (\<exists>k. enrichOne resp tr = Fulfilled (tid tr, Patch (fetchWinds resp) (Some k)))"
  proof
    assume h: "points tr \<noteq> [] \<and> driftKmh tr = Some d"
    then have "driftKmh (withWinds tr (fetchWinds resp)) = Some d"
      by (simp add: withWinds_frame)
    then obtain k where "computeRisk (withWinds tr (fetchWinds resp)) = Some k"
      using computeRisk_None [of "withWinds tr (fetchWinds resp)"] by fastforce
    then show "\<exists>k. enrichOne resp tr = Fulfilled (tid tr, Patch (fetchWinds resp) (Some k))"
      using h by (simp add: enrichOne_Fulfilled)
  qed
  have b: "points tr \<noteq> [] \<and> driftKmh tr = Some d \<and> fetchWinds resp = None
        \<and> wind500 tr = None \<and> dir500 tr = None \<and> wind700 tr = None \<and> dir700 tr = None \<longrightarrow>
      enrichOne resp tr = Fulfilled (tid tr, Patch None (Some (mathRound
        (jmul (jadd (jadd (jmul (rd (4 / 10)) (mathMin (jdiv d (Fin 100)) (Fin 1)))
                       (jmul (rd (4 / 10)) (Fin 0)))
                 (jmul (rd (2 / 10)) (Fin 0)))
           (Fin 100)))))"
    by (simp add: enrichOne_Fulfilled withWinds_def computeRisk_no_winds)
  have c: "points tr = [] \<longrightarrow> enrichOne resp tr = Fulfilled (tid tr, EmptyPatch)"
    by (simp add: enrichOne_Fulfilled)
  have e: "points tr \<noteq> [] \<and> driftKmh tr = None \<longrightarrow>
      enrichOne resp tr = Fulfilled (tid tr, Patch (fetchWinds resp) None)"
    using computeRisk_None [of "withWinds tr (fetchWinds resp)"]
    by (simp add: enrichOne_Fulfilled withWinds_frame)
  have f: "0 < batchSize \<and> n < length (take subsetSize (buildList lib label nowSec grouped)) \<longrightarrow>
      (\<exists>results.
          enrichInBatches net (take subsetSize (buildList lib label nowSec grouped)) batchSize
            = Some results
          \<and> results ! n = enrichOne (net n) (buildList lib label nowSec grouped ! n))
      \<and> wind500 (buildList lib label nowSec grouped ! n) = None
      \<and> dir500 (buildList lib label nowSec grouped ! n) = None
      \<and> wind700 (buildList lib label nowSec grouped ! n) = None
      \<and> dir700 (buildList lib label nowSec grouped ! n) = None"
  proof
    assume h: "0 < batchSize \<and> n < length (take subsetSize (buildList lib label nowSec grouped))"
    then have n: "n < subsetSize" "n < length (buildList lib label nowSec grouped)" by auto
    from h enrichInBatches_nth
      [of batchSize n "take subsetSize (buildList lib label nowSec grouped)" net]
    obtain results where
      "enrichInBatches net (take subsetSize (buildList lib label nowSec grouped)) batchSize
         = Some results"
      "results ! n = enrichOne (net n) (take subsetSize (buildList lib label nowSec grouped) ! n)"
      by blast
    then show "(\<exists>results.
          enrichInBatches net (take subsetSize (buildList lib label nowSec grouped)) batchSize
            = Some results
          \<and> results ! n = enrichOne (net n) (buildList lib label nowSec grouped ! n))
      \<and> wind500 (buildList lib label nowSec grouped ! n) = None
      \<and> dir500 (buildList lib label nowSec grouped ! n) = None
      \<and> wind700 (buildList lib label nowSec grouped ! n) = None
      \<and> dir700 (buildList lib label nowSec grouped ! n) = None"
      using n buildList_no_winds [OF n(2)] by simp
  qed
  show ?thesis using a b c e f by blast
qed

theorem enrichOne_risk_present_without_winds_witness:
  "points (sampleTrack ''a'' [samplePoint] (Some (Fin (35 / 4)))) \<noteq> []
   \<and> driftKmh (sampleTrack ''a'' [samplePoint] (Some (Fin (35 / 4)))) = Some (Fin (35 / 4))
   \<and> fetchWinds Failed = None
   \<and> enrichOne Failed (sampleTrack ''a'' [samplePoint] (Some (Fin (35 / 4))))
       = Fulfilled (''a'', Patch None (Some (Fin 3)))
   \<and> enrichOne Failed (sampleTrack ''b'' [] None) = Fulfilled (''b'', EmptyPatch)
   \<and> enrichOne Failed (sampleTrack ''c'' [samplePoint] None) = Fulfilled (''c'', Patch None None)
   \<and> 0 < length (take 50 (buildList sampleLib (fmtAge sampleShow sampleFix1) 1700000000
                              [(''a'', [samplePoint])]))
   \<and> (\<exists>results.
        enrichInBatches sampleNet
          (take 50 (buildList sampleLib (fmtAge sampleShow sampleFix1) 1700000000
                      [(''a'', [samplePoint])])) 25
          = Some results
        \<and> results ! 0
          = enrichOne (sampleNet 0)
              (buildList sampleLib (fmtAge sampleShow sampleFix1) 1700000000
                 [(''a'', [samplePoint])] ! 0))"
proof -
  note ta = enrichOne_risk_present_without_winds
    [of "sampleTrack ''a'' [samplePoint] (Some (Fin (35 / 4)))" "Fin (35 / 4)" Failed 25 0 50
        sampleLib "fmtAge sampleShow sampleFix1" 1700000000 "[(''a'', [samplePoint])]" sampleNet]
  note tb = enrichOne_risk_present_without_winds
    [of "sampleTrack ''b'' [] None" "Fin (35 / 4)" Failed 25 0 50
        sampleLib "fmtAge sampleShow sampleFix1" 1700000000 "[(''a'', [samplePoint])]" sampleNet]
  note tc = enrichOne_risk_present_without_winds
    [of "sampleTrack ''c'' [samplePoint] None" "Fin (35 / 4)" Failed 25 0 50
        sampleLib "fmtAge sampleShow sampleFix1" 1700000000 "[(''a'', [samplePoint])]" sampleNet]
  have p: "points (sampleTrack ''a'' [samplePoint] (Some (Fin (35 / 4)))) \<noteq> []
     \<and> driftKmh (sampleTrack ''a'' [samplePoint] (Some (Fin (35 / 4)))) = Some (Fin (35 / 4))
     \<and> fetchWinds Failed = None"
    by (simp add: sampleTrack_def fetchWinds_def)
  have w: "wind500 (sampleTrack ''a'' [samplePoint] (Some (Fin (35 / 4)))) = None
     \<and> dir500 (sampleTrack ''a'' [samplePoint] (Some (Fin (35 / 4)))) = None
     \<and> wind700 (sampleTrack ''a'' [samplePoint] (Some (Fin (35 / 4)))) = None
     \<and> dir700 (sampleTrack ''a'' [samplePoint] (Some (Fin (35 / 4)))) = None
     \<and> tid (sampleTrack ''a'' [samplePoint] (Some (Fin (35 / 4)))) = ''a''"
    by (simp add: sampleTrack_def)
  have a: "enrichOne Failed (sampleTrack ''a'' [samplePoint] (Some (Fin (35 / 4))))
       = Fulfilled (''a'', Patch None (Some (Fin 3)))"
    using ta [THEN conjunct2, THEN conjunct1] p w by (simp only: risk_at_8_75) simp
  have b: "enrichOne Failed (sampleTrack ''b'' [] None) = Fulfilled (''b'', EmptyPatch)"
    using tb [THEN conjunct2, THEN conjunct2, THEN conjunct1] by (simp add: sampleTrack_def)
  have c: "enrichOne Failed (sampleTrack ''c'' [samplePoint] None)
       = Fulfilled (''c'', Patch None None)"
    using tc [THEN conjunct2, THEN conjunct2, THEN conjunct2, THEN conjunct1] p
    by (simp add: sampleTrack_def)
  have l: "0 < length (take 50 (buildList sampleLib (fmtAge sampleShow sampleFix1) 1700000000
                              [(''a'', [samplePoint])]))"
    by (simp add: buildList_def ownEntries_def isArrayIndex_def)
  have r: "\<exists>results.
        enrichInBatches sampleNet
          (take 50 (buildList sampleLib (fmtAge sampleShow sampleFix1) 1700000000
                      [(''a'', [samplePoint])])) 25
          = Some results
        \<and> results ! 0
          = enrichOne (sampleNet 0)
              (buildList sampleLib (fmtAge sampleShow sampleFix1) 1700000000
                 [(''a'', [samplePoint])] ! 0)"
  proof -
    have "(0 :: nat) < 25" by simp
    then show ?thesis
      using ta [THEN conjunct2, THEN conjunct2, THEN conjunct2, THEN conjunct2] l by blast
  qed
  show ?thesis
    using p a b c l r by blast
qed

text \<open>
  C10, the claim as stated, fails on the closed form: for a trajectory with a point, a
  drift of 8.75 km/h and a failed wind request the risk of the result is 3, while
  \<open>round(40 * min(8.75 / 100, 1))\<close> is 4, in the arithmetic of the language as in exact
  arithmetic.
\<close>

theorem enrichOne_risk_closed_form_counterexample:
  "enrichOne Failed (sampleTrack ''a'' [samplePoint] (Some (Fin (35 / 4))))
     = Fulfilled (''a'', Patch None (Some (Fin 3)))
   \<and> mathRound (jmul (Fin 40) (mathMin (jdiv (Fin (35 / 4)) (Fin 100)) (Fin 1))) = Fin 4
   \<and> mathRound (Fin (40 * min ((35 / 4) / 100) 1)) = Fin 4"
proof -
  have "computeRisk (sampleTrack ''a'' [samplePoint] (Some (Fin (35 / 4)))) = Some (Fin 3)"
    by (subst computeRisk_no_winds [of _ "Fin (35 / 4)"])
      (simp_all only: risk_at_8_75, simp_all add: sampleTrack_def)
  then have "enrichOne Failed (sampleTrack ''a'' [samplePoint] (Some (Fin (35 / 4))))
     = Fulfilled (''a'', Patch None (Some (Fin 3)))"
    by (simp add: enrichOne_def fetchWinds_def withWinds_def sampleTrack_def)
  moreover have "mathRound (Fin (40 * min ((35 / 4) / 100) 1)) = Fin 4"
    by simp
  ultimately show ?thesis
    using closed_form_at_8_75 by blast
qed

section \<open>Properties of the trajectory builder\<close>

lemma dedupe_subset: "set (dedupe shw seen ps) \<subseteq> set ps"
  by (induction ps arbitrary: seen) (auto simp: Let_def)

lemma dedupe_sorted:
  "sorted (map ts ps) \<Longrightarrow> sorted (map ts (dedupe shw seen ps))"
proof (induction ps arbitrary: seen)
  case Nil
  then show ?case by simp
next
  case (Cons p ps)
  have "\<forall>q \<in> set (dedupe shw s ps). ts p \<le> ts q" for s
    using Cons.prems dedupe_subset [of shw s ps] by auto
  then show ?case
    using Cons by (auto simp: Let_def)
qed

lemma dedupe_keys_fresh:
  "q \<in> set (dedupe shw seen ps) \<Longrightarrow> shw (Num (Fin (ts q))) \<notin> seen"
  by (induction ps arbitrary: seen) (auto simp: Let_def split: if_splits)

lemma dedupe_keys_distinct:
  "distinct (map (\<lambda>p. shw (Num (Fin (ts p)))) (dedupe shw seen ps))"
proof (induction ps arbitrary: seen)
  case Nil
  then show ?case by simp
next
  case (Cons p ps)
  let ?k = "shw (Num (Fin (ts p)))"
  show ?case
  proof (cases "?k \<in> seen")
    case True
    then show ?thesis using Cons.IH by (simp add: Let_def)
  next
    case False
    have "?k \<notin> (\<lambda>p. shw (Num (Fin (ts p)))) ` set (dedupe shw (insert ?k seen) ps)"
    proof
      assume "?k \<in> (\<lambda>p. shw (Num (Fin (ts p)))) ` set (dedupe shw (insert ?k seen) ps)"
      then obtain q where q: "q \<in> set (dedupe shw (insert ?k seen) ps)"
          "shw (Num (Fin (ts q))) = ?k"
        by auto
      from dedupe_keys_fresh [OF q(1)] q(2) show False by simp
    qed
    then show ?thesis using False Cons.IH by (simp add: Let_def)
  qed
qed

lemma dedupe_ts_distinct: "distinct (map ts (dedupe shw seen ps))"
proof -
  have "distinct (map ((\<lambda>t. shw (Num (Fin t))) \<circ> ts) (dedupe shw seen ps))"
    using dedupe_keys_distinct [of shw seen ps] by (simp add: comp_def)
  then show ?thesis
    by (metis distinct_map map_map)
qed

lemma dedupe_first:
  "q \<in> set (dedupe shw seen ps) \<Longrightarrow>
   find (\<lambda>p. shw (Num (Fin (ts p))) = shw (Num (Fin (ts q)))) ps = Some q"
proof (induction ps arbitrary: seen)
  case Nil
  then show ?case by simp
next
  case (Cons p ps)
  show ?case
  proof (cases "shw (Num (Fin (ts p))) \<in> seen")
    case True
    then have q: "q \<in> set (dedupe shw seen ps)" using Cons.prems by (simp add: Let_def)
    then have "shw (Num (Fin (ts q))) \<notin> seen" by (rule dedupe_keys_fresh)
    then have "shw (Num (Fin (ts p))) \<noteq> shw (Num (Fin (ts q)))" using True by auto
    then show ?thesis using Cons.IH [OF q] by simp
  next
    case False
    then have "q = p \<or> q \<in> set (dedupe shw (insert (shw (Num (Fin (ts p)))) seen) ps)"
      using Cons.prems by (simp add: Let_def)
    then show ?thesis
    proof
      assume "q = p"
      then show ?thesis by simp
    next
      assume q: "q \<in> set (dedupe shw (insert (shw (Num (Fin (ts p)))) seen) ps)"
      then have "shw (Num (Fin (ts q))) \<noteq> shw (Num (Fin (ts p)))"
        using dedupe_keys_fresh by fastforce
      then show ?thesis using Cons.IH [OF q] by simp
    qed
  qed
qed

lemma dedupe_keys_all:
  "(\<lambda>p. shw (Num (Fin (ts p)))) ` set (dedupe shw seen ps)
     = (\<lambda>p. shw (Num (Fin (ts p)))) ` set ps - seen"
  by (induction ps arbitrary: seen) (auto simp: Let_def)

lemma find_filter_eq:
  "filter P xs = filter P ys \<Longrightarrow> find P xs = find P ys"
proof -
  have "find P zs = (case filter P zs of [] \<Rightarrow> None | z # _ \<Rightarrow> Some z)" for zs :: "'a list"
    by (induction zs) auto
  then show "filter P xs = filter P ys \<Longrightarrow> find P xs = find P ys"
    by simp
qed

lemma find_stable_sort:
  "find (\<lambda>p. ts p = t) (sort_key ts ps) = find (\<lambda>p. ts p = t) ps"
  by (rule find_filter_eq) (rule sort_key_stable)

lemma sortDedupe_strict: "sorted_wrt (<) (map ts (sortDedupe shw ps))"
proof -
  have "sorted (map ts (sortDedupe shw ps))"
    unfolding sortDedupe_def by (rule dedupe_sorted) simp
  moreover have "distinct (map ts (sortDedupe shw ps))"
    unfolding sortDedupe_def by (rule dedupe_ts_distinct)
  ultimately show ?thesis
    by (simp add: strict_sorted_iff)
qed

lemma sortDedupe_subset: "set (sortDedupe shw ps) \<subseteq> set ps"
  using dedupe_subset [of shw "{}" "sort_key ts ps"] by (simp add: sortDedupe_def)

lemma sortDedupe_first:
  assumes inj: "inj_on (\<lambda>t. shw (Num (Fin t))) (ts ` set ps)"
    and q: "q \<in> set (sortDedupe shw ps)"
  shows "find (\<lambda>p. ts p = ts q) ps = Some q"
proof -
  have qs: "q \<in> set ps" using q sortDedupe_subset by blast
  have "find (\<lambda>p. shw (Num (Fin (ts p))) = shw (Num (Fin (ts q)))) (sort_key ts ps) = Some q"
    using q unfolding sortDedupe_def by (rule dedupe_first)
  moreover have "find (\<lambda>p. shw (Num (Fin (ts p))) = shw (Num (Fin (ts q)))) (sort_key ts ps)
      = find (\<lambda>p. ts p = ts q) (sort_key ts ps)"
  proof (rule find_cong [OF refl])
    fix p assume "p \<in> set (sort_key ts ps)"
    then have "p \<in> set ps" by simp
    then show "(shw (Num (Fin (ts p))) = shw (Num (Fin (ts q)))) = (ts p = ts q)"
      using inj qs by (auto dest: inj_onD)
  qed
  ultimately show ?thesis by (simp add: find_stable_sort)
qed

lemma sortDedupe_all_ts:
  assumes inj: "inj_on (\<lambda>t. shw (Num (Fin t))) (ts ` set ps)"
  shows "ts ` set (sortDedupe shw ps) = ts ` set ps"
proof
  show "ts ` set (sortDedupe shw ps) \<subseteq> ts ` set ps"
    using sortDedupe_subset [of shw ps] by auto
next
  show "ts ` set ps \<subseteq> ts ` set (sortDedupe shw ps)"
  proof
    fix t assume "t \<in> ts ` set ps"
    then obtain p where p: "p \<in> set ps" "t = ts p" by auto
    have "(\<lambda>p. shw (Num (Fin (ts p)))) ` set (sortDedupe shw ps)
        = (\<lambda>p. shw (Num (Fin (ts p)))) ` set ps"
      using dedupe_keys_all [of shw "{}" "sort_key ts ps"] by (simp add: sortDedupe_def)
    then obtain q where q: "q \<in> set (sortDedupe shw ps)"
        "shw (Num (Fin (ts q))) = shw (Num (Fin (ts p)))"
      using p(1) by (metis (mono_tags, lifting) image_iff)
    then have "q \<in> set ps" using sortDedupe_subset by blast
    then have "ts q = ts p"
      using inj q(2) p(1) by (auto dest: inj_onD)
    then have "t = ts q" using p(2) by simp
    then show "t \<in> ts ` set (sortDedupe shw ps)"
      using q(1) by (simp only: image_eqI)
  qed
qed

lemma fetchLast24h_trajectories:
  assumes "fetchLast24h conv shw clock results = Inr (g, st)" "(k, tr) \<in> set g"
  shows "\<exists>ps. tr = sortDedupe shw ps"
  using assms
  by (auto simp: fetchLast24h_def Let_def split: sum.splits)

text \<open>
  C3. The sort/dedupe step gives a sequence of strictly increasing timestamps, made of
  points of its input. When the printed forms of the timestamps of the input are pairwise
  different, as the printed forms of different numbers are, every timestamp of the input is
  kept exactly once, and the point kept for it is the first one with that timestamp in the
  order in which the points were met. Every trajectory returned by \<open>fetchLast24h\<close> has
  strictly increasing timestamps.
\<close>

theorem sortDedupe_strictly_increasing_first_wins:
  "sorted_wrt (<) (map ts (sortDedupe shw ps))
   \<and> set (sortDedupe shw ps) \<subseteq> set ps
   \<and> (inj_on (\<lambda>t. shw (Num (Fin t))) (ts ` set ps) \<longrightarrow>
        ts ` set (sortDedupe shw ps) = ts ` set ps
        \<and> (\<forall>q \<in> set (sortDedupe shw ps). find (\<lambda>p. ts p = ts q) ps = Some q))
   \<and> (fetchLast24h conv shw clock results = Inr (g, st) \<and> (k, tr) \<in> set g \<longrightarrow>
        sorted_wrt (<) (map ts tr))"
proof -
  have "fetchLast24h conv shw clock results = Inr (g, st) \<and> (k, tr) \<in> set g \<longrightarrow>
        sorted_wrt (<) (map ts tr)"
    using fetchLast24h_trajectories [of conv shw clock results g st k tr] sortDedupe_strict
    by auto
  then show ?thesis
    using sortDedupe_strict [of shw ps] sortDedupe_subset [of shw ps]
      sortDedupe_all_ts [of shw ps] sortDedupe_first [of shw ps]
    by blast
qed

lemma sampleShow_small:
  "sampleShow (Num (Fin 0)) = ''0''" "sampleShow (Num (Fin 1)) = ''1''"
  "sampleShow (Num (Fin 2)) = ''2''" "sampleShow (Num (Fin 3)) = ''3''"
  by (simp_all add: sampleShow_def decimal.simps)

theorem sortDedupe_strictly_increasing_first_wins_witness:
  "sortDedupe sampleShow
      [\<lparr>lat = 1, lon = 0, ts = 2\<rparr>, \<lparr>lat = 2, lon = 0, ts = 1\<rparr>, \<lparr>lat = 3, lon = 0, ts = 2\<rparr>]
     = [\<lparr>lat = 2, lon = 0, ts = 1\<rparr>, \<lparr>lat = 1, lon = 0, ts = 2\<rparr>]
   \<and> inj_on (\<lambda>t. sampleShow (Num (Fin t)))
        (ts ` set [\<lparr>lat = 1, lon = 0, ts = 2\<rparr>, \<lparr>lat = 2, lon = 0, ts = 1\<rparr>,
                   \<lparr>lat = 3, lon = 0, ts = 2\<rparr>])
   \<and> find (\<lambda>p. ts p = 2)
        [\<lparr>lat = 1, lon = 0, ts = 2\<rparr>, \<lparr>lat = 2, lon = 0, ts = 1\<rparr>, \<lparr>lat = 3, lon = 0, ts = 2\<rparr>]
     = Some \<lparr>lat = 1, lon = 0, ts = 2\<rparr>
   \<and> fetchLast24h sampleConv sampleShow sampleClock
        [Rejected,
         Fulfilled (Arr [Obj [(''id'', Str ''a1''), (''lat'', Num (Fin 1)), (''lon'', Num (Fin 0)),
                              (''ts'', Num (Fin 2))],
                         Obj [(''id'', Str ''a1''), (''lat'', Num (Fin 2)), (''lon'', Num (Fin 0)),
                              (''ts'', Num (Fin 1))]])]
     = Inr ([(''a1'', [\<lparr>lat = 2, lon = 0, ts = 1\<rparr>, \<lparr>lat = 1, lon = 0, ts = 2\<rparr>])],
            \<lparr>raw = 2, kept = 2, balloons = 1\<rparr>)
   \<and> sorted_wrt (<) (map ts [\<lparr>lat = 2, lon = 0, ts = 1\<rparr>, \<lparr>lat = 1, lon = 0, ts = 2\<rparr>])"
  using sortDedupe_strictly_increasing_first_wins
    [of sampleShow
        "[\<lparr>lat = 1, lon = 0, ts = 2\<rparr>, \<lparr>lat = 2, lon = 0, ts = 1\<rparr>, \<lparr>lat = 3, lon = 0, ts = 2\<rparr>]"
        sampleConv sampleClock
        "[Rejected,
         Fulfilled (Arr [Obj [(''id'', Str ''a1''), (''lat'', Num (Fin 1)), (''lon'', Num (Fin 0)),
                              (''ts'', Num (Fin 2))],
                         Obj [(''id'', Str ''a1''), (''lat'', Num (Fin 2)), (''lon'', Num (Fin 0)),
                              (''ts'', Num (Fin 1))]])]"
        "[(''a1'', [\<lparr>lat = 2, lon = 0, ts = 1\<rparr>, \<lparr>lat = 1, lon = 0, ts = 2\<rparr>])]"
        "\<lparr>raw = 2, kept = 2, balloons = 1\<rparr>" "''a1''"
        "[\<lparr>lat = 2, lon = 0, ts = 1\<rparr>, \<lparr>lat = 1, lon = 0, ts = 2\<rparr>]"]
  by (simp add: sortDedupe_def sampleShow_small inj_on_def fetchLast24h_def pushPoint_def
      objectProtoKeys_def sampleClock_def
      rowLat_def rowLon_def rowTs_def tsRaw_def rowId_def getProp_def coalesce_def Let_def)

section \<open>Grouping by id\<close>

text \<open>
  C6. One hour succeeds, with the single row \<open>{id: "constructor", lat: 1, lon: 2, ts: 5}\<close>,
  and the 23 others fail. The row is accepted; \<open>byId["constructor"]\<close> is the inherited
  \<open>Object\<close> function, so the grouping step throws a TypeError and \<open>fetchLast24h\<close>, and with
  it \<open>load\<close>, ends with that exception instead of a result.
\<close>

theorem fetchLast24h_inherited_key_throws:
  "fetchLast24h sampleConv sampleShow sampleClock
      (Fulfilled (Arr [Obj [(''id'', Str ''constructor''), (''lat'', Num (Fin 1)),
                            (''lon'', Num (Fin 2)), (''ts'', Num (Fin 5))]])
       # replicate 23 Rejected)
     = Inl TypeError
   \<and> load sampleLib sampleConv sampleShow sampleFix1 sampleClock 1700000000
      (Fulfilled (Arr [Obj [(''id'', Str ''constructor''), (''lat'', Num (Fin 1)),
                            (''lon'', Num (Fin 2)), (''ts'', Num (Fin 5))]])
       # replicate 23 Rejected) sampleNet
     = Some (Inl TypeError)"
  by (simp add: load_def fetchLast24h_def pushPoint_def objectProtoKeys_def sampleClock_def
      rowLat_def rowLon_def rowTs_def tsRaw_def rowId_def getProp_def coalesce_def)

section \<open>Risk of a trajectory at an overflowing latitude\<close>

text \<open>The hours that fail leave the state of the loop as it is.\<close>

lemma hoursLoop_rejected:
  "hoursLoop conv shw clock (replicate n Rejected) hourIdx st = Inr st"
  by (induction n arbitrary: hourIdx) simp_all

text \<open>
  C4. Hours 00 and 01 bring one row each for the balloon \<open>a\<close>, both with the latitude
  \<open>8.98846567431158e307\<close>, which is \<open>2^1023\<close>, and the 22 other hours fail. Both rows are
  accepted and grouped. The trajectory built from them has a drift that is NaN,
  \<open>computeRisk\<close> returns NaN for it, that is the risk of the enrichment result, and \<open>load\<close>
  ends with a trajectory whose risk is NaN: not an integer from 0 to 100.
\<close>

theorem computeRisk_overflow_evaluates_to_NaN:
  "fetchLast24h sampleConv sampleShow sampleClock
      (Fulfilled (Arr [Obj [(''id'', Str ''a''), (''lat'', Num (Fin (2 ^ 1023))),
                            (''lon'', Num (Fin 0)), (''ts'', Num (Fin 2))]])
       # Fulfilled (Arr [Obj [(''id'', Str ''a''), (''lat'', Num (Fin (2 ^ 1023))),
                            (''lon'', Num (Fin 0)), (''ts'', Num (Fin 1))]])
       # replicate 22 Rejected)
     = Inr ([(''a'', [\<lparr>lat = 2 ^ 1023, lon = 0, ts = 1\<rparr>, \<lparr>lat = 2 ^ 1023, lon = 0, ts = 2\<rparr>])],
            \<lparr>raw = 2, kept = 2, balloons = 1\<rparr>)
   \<and> driftKmh (buildTrack sampleLib (fmtAge sampleShow sampleFix1) 1700000000
        (''a'', [\<lparr>lat = 2 ^ 1023, lon = 0, ts = 1\<rparr>, \<lparr>lat = 2 ^ 1023, lon = 0, ts = 2\<rparr>]))
     = Some NaN
   \<and> computeRisk (buildTrack sampleLib (fmtAge sampleShow sampleFix1) 1700000000
        (''a'', [\<lparr>lat = 2 ^ 1023, lon = 0, ts = 1\<rparr>, \<lparr>lat = 2 ^ 1023, lon = 0, ts = 2\<rparr>]))
     = Some NaN
   \<and> enrichOne Failed (buildTrack sampleLib (fmtAge sampleShow sampleFix1) 1700000000
        (''a'', [\<lparr>lat = 2 ^ 1023, lon = 0, ts = 1\<rparr>, \<lparr>lat = 2 ^ 1023, lon = 0, ts = 2\<rparr>]))
     = Fulfilled (''a'', Patch None (Some NaN))
   \<and> load sampleLib sampleConv sampleShow sampleFix1 sampleClock 1700000000
      (Fulfilled (Arr [Obj [(''id'', Str ''a''), (''lat'', Num (Fin (2 ^ 1023))),
                            (''lon'', Num (Fin 0)), (''ts'', Num (Fin 2))]])
       # Fulfilled (Arr [Obj [(''id'', Str ''a''), (''lat'', Num (Fin (2 ^ 1023))),
                            (''lon'', Num (Fin 0)), (''ts'', Num (Fin 1))]])
       # replicate 22 Rejected) sampleNet
     = Some (Inr ([(buildTrack sampleLib (fmtAge sampleShow sampleFix1) 1700000000
                     (''a'', [\<lparr>lat = 2 ^ 1023, lon = 0, ts = 1\<rparr>,
                              \<lparr>lat = 2 ^ 1023, lon = 0, ts = 2\<rparr>]))\<lparr>risk := Some NaN\<rparr>],
                  \<lparr>raw = 2, kept = 2, balloons = 1\<rparr>))"
proof -
  define results where "results =
      Fulfilled (Arr [Obj [(''id'', Str ''a''), (''lat'', Num (Fin (2 ^ 1023))),
                            (''lon'', Num (Fin 0)), (''ts'', Num (Fin 2))]])
       # Fulfilled (Arr [Obj [(''id'', Str ''a''), (''lat'', Num (Fin (2 ^ 1023))),
                            (''lon'', Num (Fin 0)), (''ts'', Num (Fin 1))]])
       # replicate 22 Rejected"
  define G where
    "G = [(''a'', [\<lparr>lat = 2 ^ 1023, lon = 0, ts = 1\<rparr>, \<lparr>lat = (2 :: real) ^ 1023, lon = 0, ts = 2\<rparr>])]"
  define tr where "tr = buildTrack sampleLib (fmtAge sampleShow sampleFix1) 1700000000
        (''a'', [\<lparr>lat = 2 ^ 1023, lon = 0, ts = 1\<rparr>, \<lparr>lat = 2 ^ 1023, lon = 0, ts = 2\<rparr>])"
  have fl: "fetchLast24h sampleConv sampleShow sampleClock results
              = Inr (G, \<lparr>raw = 2, kept = 2, balloons = 1\<rparr>)"
    by (simp add: results_def G_def sortDedupe_def sampleShow_small fetchLast24h_def
        hoursLoop_rejected pushPoint_def objectProtoKeys_def sampleClock_def
        rowLat_def rowLon_def rowTs_def tsRaw_def rowId_def getProp_def coalesce_def Let_def)
  have d: "driftKmh tr = Some NaN"
    unfolding tr_def by (rule buildTrack_overflow [OF toRad_overflow])
  have r: "computeRisk tr = Some NaN"
    using d by (rule computeRisk_NaN)
  have p: "points tr \<noteq> []" "tid tr = ''a''"
    by (simp_all add: tr_def buildTrack_def Let_def)
  have e: "enrichOne Failed tr = Fulfilled (''a'', Patch None (Some NaN))"
    using p r by (simp add: enrichOne_def fetchWinds_def withWinds_def)
  have bl: "buildList sampleLib (fmtAge sampleShow sampleFix1) 1700000000 G = [tr]"
    by (simp add: buildList_def ownEntries_def isArrayIndex_def G_def tr_def)
  have en: "enrichInBatches sampleNet (take ENRICH_SUBSET [tr]) ENRICH_BATCH
              = Some [Fulfilled (''a'', Patch None (Some NaN))]"
    using e by (simp add: enrichInBatches_total ENRICH_SUBSET_def ENRICH_BATCH_def sampleNet_def)
  have mg: "mergeTracks [Fulfilled (''a'', Patch None (Some NaN))] [tr] = [tr\<lparr>risk := Some NaN\<rparr>]"
    using p by (simp add: mergeTracks_def fromEntries_def withWinds_def)
  have ld: "load sampleLib sampleConv sampleShow sampleFix1 sampleClock 1700000000 results sampleNet
              = Some (Inr ([tr\<lparr>risk := Some NaN\<rparr>], \<lparr>raw = 2, kept = 2, balloons = 1\<rparr>))"
    by (simp add: load_def fl bl enrichPhase_def en mg)
  show ?thesis
    using fl d r e ld unfolding results_def G_def tr_def by (intro conjI)
qed

section \<open>Properties of the batching\<close>

lemma ownEntries_no_index:
  "\<forall>kv \<in> set kvs. \<not> isArrayIndex (fst kv) \<Longrightarrow> ownEntries kvs = kvs"
proof -
  assume a: "\<forall>kv \<in> set kvs. \<not> isArrayIndex (fst kv)"
  then have "filter (\<lambda>kv. isArrayIndex (fst kv)) kvs = []"
    by (simp add: filter_empty_conv)
  moreover have "filter (\<lambda>kv. \<not> isArrayIndex (fst kv)) kvs = kvs"
    using a by (simp add: filter_id_conv)
  ultimately show ?thesis by (simp add: ownEntries_def)
qed

lemma buildList_ids: "map tid (buildList lib label nowSec grouped) = map fst (ownEntries grouped)"
  by (simp add: buildList_def buildTrack_def Let_def comp_def)

text \<open>The number of passes of the loop over \<open>n\<close> items: \<open>n / batchSize\<close>, rounded up.\<close>

lemma passes_bounds:
  fixes b g n :: nat
  assumes "0 < b"
  shows "g < (n + b - 1) div b \<longleftrightarrow> g * b < n"
proof -
  have "(n + b - 1) div b < Suc g \<longleftrightarrow> n + b - 1 < Suc g * b"
    using assms by (rule div_less_iff_less_mult)
  then have "g < (n + b - 1) div b \<longleftrightarrow> Suc g * b \<le> n + b - 1"
    by auto
  also have "\<dots> \<longleftrightarrow> g * b < n"
    using assms by (cases b) auto
  finally show ?thesis .
qed

lemma enrichLoop_passes:
  assumes b: "0 < b"
  shows "g \<le> (length items + b - 1) div b \<Longrightarrow>
         enrichLoop net items b (g * b) out =
           Some (out @ concat (map (\<lambda>g'. batchResults net items b (g' * b))
                                [g ..< (length items + b - 1) div b]))"
proof (induction "(length items + b - 1) div b - g" arbitrary: g out)
  case 0
  then have "g = (length items + b - 1) div b" by simp
  then have "\<not> g * b < length items"
    using passes_bounds [OF b, of g "length items"] by simp
  then show ?case
    using \<open>g = (length items + b - 1) div b\<close> by (subst enrichLoop.simps) simp
next
  case (Suc d)
  then have g: "g < (length items + b - 1) div b" by simp
  then have lt: "g * b < length items"
    using passes_bounds [OF b, of g "length items"] by simp
  have e: "Suc g * b = g * b + b" by simp
  have "enrichLoop net items b (Suc g * b) (out @ batchResults net items b (g * b)) =
          Some ((out @ batchResults net items b (g * b))
            @ concat (map (\<lambda>g'. batchResults net items b (g' * b))
                        [Suc g ..< (length items + b - 1) div b]))"
    using Suc g by (intro Suc.hyps(1)) auto
  then have step: "enrichLoop net items b (g * b + b) (out @ batchResults net items b (g * b)) =
          Some ((out @ batchResults net items b (g * b))
            @ concat (map (\<lambda>g'. batchResults net items b (g' * b))
                        [Suc g ..< (length items + b - 1) div b]))"
    unfolding e .
  have "[g ..< (length items + b - 1) div b] = g # [Suc g ..< (length items + b - 1) div b]"
    using g by (rule upt_conv_Cons)
  then show ?case
    using lt by (subst enrichLoop.simps) (simp add: step)
qed

lemma enrichInBatches_passes:
  "0 < b \<Longrightarrow>
   enrichInBatches net items b =
     Some (concat (map (\<lambda>g. batchResults net items b (g * b))
                     [0 ..< (length items + b - 1) div b]))"
  using enrichLoop_passes [of b 0 items net "[]"] by (simp add: enrichInBatches_def)

lemma batchAt_length:
  assumes "0 < b" "g < (length items + b - 1) div b"
  shows "length (batchAt items b (g * b))
           = (if Suc g < (length items + b - 1) div b then b else length items - g * b)
         \<and> 1 \<le> length (batchAt items b (g * b)) \<and> length (batchAt items b (g * b)) \<le> b"
proof -
  have lt: "g * b < length items"
    using assms passes_bounds by blast
  have "Suc g < (length items + b - 1) div b \<longleftrightarrow> Suc g * b < length items"
    using assms(1) passes_bounds by blast
  then show ?thesis
    using lt assms(1) by (auto simp: batchAt_def min_def)
qed

lemma batchAt_concat:
  assumes b: "0 < b"
  shows "concat (map (\<lambda>g. batchAt items b (g * b)) [0 ..< (length items + b - 1) div b]) = items"
proof -
  have "g \<le> (length items + b - 1) div b \<Longrightarrow>
        concat (map (\<lambda>g'. batchAt items b (g' * b)) [g ..< (length items + b - 1) div b])
          = drop (g * b) items" for g
  proof (induction "(length items + b - 1) div b - g" arbitrary: g)
    case 0
    then have "g = (length items + b - 1) div b" by simp
    then have "\<not> g * b < length items"
      using passes_bounds [OF b, of g "length items"] by simp
    then show ?case using \<open>g = (length items + b - 1) div b\<close> by simp
  next
    case (Suc d)
    then have g: "g < (length items + b - 1) div b" by simp
    have "concat (map (\<lambda>g'. batchAt items b (g' * b)) [Suc g ..< (length items + b - 1) div b])
          = drop (Suc g * b) items"
      using Suc g by (intro Suc.hyps(1)) auto
    moreover have "take b (drop (g * b) items) @ drop (b + g * b) items = drop (g * b) items"
      by (metis add.commute append_take_drop_id drop_drop)
    ultimately show ?case
      using g by (simp add: upt_conv_Cons batchAt_def)
  qed
  from this [of 0] show ?thesis by simp
qed

text \<open>A run of the loop returns what the loop returns, and the loop has a run.\<close>

lemma enrichRun_result:
  "enrichRun net items b i out evs res \<Longrightarrow> enrichLoop net items b i out = Some res"
proof (induction rule: enrichRun.induct)
  case (finished i items net b out)
  then show ?case by (subst enrichLoop.simps) simp
next
  case (batch i items ord b net out rest res)
  then show ?case by (subst enrichLoop.simps) simp
qed

lemma enrichRun_exists:
  assumes b: "0 < b"
  shows "\<exists>evs res. enrichRun net items b i out evs res"
proof (induction "length items - i" arbitrary: i out rule: less_induct)
  case less
  show ?case
  proof (cases "i < length items")
    case False
    then show ?thesis using enrichRun.finished by blast
  next
    case True
    then have "length items - (i + b) < length items - i" using b by simp
    then obtain rest res where
      r: "enrichRun net items b (i + b) (out @ batchResults net items b i) rest res"
      using less by blast
    define ord where
      "ord = filter (\<lambda>k. points (items ! k) \<noteq> []) [i ..< min (i + b) (length items)]"
    have "distinct ord" by (simp add: ord_def)
    moreover have "set ord = {k \<in> {i ..< min (i + b) (length items)}. points (items ! k) \<noteq> []}"
      by (auto simp: ord_def)
    ultimately have "enrichRun net items b i out
        (startEvents items [i ..< min (i + b) (length items)] @ map Settled ord @ rest) res"
      using True r by (intro enrichRun.batch)
    then show ?thesis by blast
  qed
qed

lemma startEvents_Started: "Started k \<in> set (startEvents items ks) \<longleftrightarrow> k \<in> set ks"
  by (induction ks) (auto simp: startEvents_def)

lemma startEvents_Settled:
  "Settled k \<in> set (startEvents items ks) \<longleftrightarrow> k \<in> set ks \<and> points (items ! k) = []"
  by (induction ks) (auto simp: startEvents_def)

lemma calls_append: "calls (xs @ ys) = calls xs @ calls ys"
  by (simp add: calls_def)

lemma calls_startEvents: "calls (startEvents items ks) = ks"
  by (induction ks) (simp_all add: calls_def startEvents_def)

lemma calls_Settled: "calls (map Settled ks) = []"
  by (induction ks) (simp_all add: calls_def)

text \<open>In a run every callback from \<open>i\<close> on is called once, in the order of the items.\<close>

lemma enrichRun_calls:
  "enrichRun net items b i out evs res \<Longrightarrow> calls evs = [i ..< length items]"
proof (induction rule: enrichRun.induct)
  case (finished i items net b out)
  then show ?case by (simp add: calls_def)
next
  case (batch i items ord b net out rest res)
  have "[i ..< min (i + b) (length items)] @ [i + b ..< length items] = [i ..< length items]"
  proof (cases "i + b \<le> length items")
    case True
    then show ?thesis using upt_split [of i "i + b" "length items"] by simp
  next
    case False
    then show ?thesis using batch.hyps(1) by (simp add: min_def)
  qed
  then show ?case
    using batch.IH by (simp add: calls_append calls_startEvents calls_Settled)
qed

text \<open>The barrier between two passes, in the events of a run.\<close>

lemma enrichRun_barrier_from:
  "enrichRun net items b i out evs res \<Longrightarrow> q < length evs \<Longrightarrow> evs ! q = Started k \<Longrightarrow>
   i \<le> j \<Longrightarrow> j < i + m * b \<Longrightarrow> i + m * b \<le> k \<Longrightarrow> j < length items \<Longrightarrow>
   Settled j \<in> set (take q evs)"
proof (induction arbitrary: q m rule: enrichRun.induct)
  case (finished i items net b out)
  then show ?case by simp
next
  case (batch i items ord b net out rest res)
  define A where "A = startEvents items [i ..< min (i + b) (length items)]"
  define B where "B = map Settled ord"
  have evs: "startEvents items [i ..< min (i + b) (length items)] @ map Settled ord @ rest
               = A @ B @ rest"
    by (simp add: A_def B_def)
  have m: "0 < m" using batch.prems(3,4) by (cases m) auto
  then have kb: "i + b \<le> k"
    using batch.prems(5) by (cases m) auto
  have notA: "\<not> q < length A"
  proof
    assume qa: "q < length A"
    then have "(A @ B @ rest) ! q = A ! q"
      by (simp add: nth_append)
    then have "A ! q = Started k" using batch.prems(2) evs by simp
    then have "Started k \<in> set A" using qa nth_mem by metis
    then have "k < i + b" by (simp add: A_def startEvents_Started)
    then show False using kb by simp
  qed
  have notB: "\<not> q < length A + length B"
  proof
    assume qb: "q < length A + length B"
    then have "q - length A < length B" using notA by linarith
    then have "(A @ B @ rest) ! q = B ! (q - length A)"
      using notA by (simp add: nth_append)
    moreover have "B ! (q - length A) = Settled (ord ! (q - length A))"
      using \<open>q - length A < length B\<close> by (simp add: B_def)
    ultimately show False using batch.prems(2) evs by simp
  qed
  define q' where "q' = q - length A - length B"
  have q: "q = length A + length B + q'"
    using notA notB by (simp add: q'_def)
  have q'l: "q' < length rest"
    using batch.prems(1) evs q by simp
  have q'k: "rest ! q' = Started k"
    using batch.prems(2) evs q by (simp add: nth_append)
  have tk: "take q (A @ B @ rest) = A @ B @ take q' rest"
    using q by simp
  show ?case
  proof (cases "j < i + b")
    case True
    then have jin: "j \<in> set [i ..< min (i + b) (length items)]"
      using batch.prems(3,6) by simp
    have "Settled j \<in> set A \<or> Settled j \<in> set B"
    proof (cases "points (items ! j) = []")
      case True
      then show ?thesis using jin by (simp add: A_def startEvents_Settled)
    next
      case False
      then have "j \<in> set ord" using jin batch.hyps(3) by simp
      then show ?thesis by (simp add: B_def)
    qed
    then show ?thesis unfolding evs tk by auto
  next
    case False
    obtain m' where m': "m = Suc m'" using m by (cases m) auto
    have "Settled j \<in> set (take q' rest)"
    proof (rule batch.IH [OF q'l q'k, of m'])
      show "i + b \<le> j" using False by simp
      show "j < i + b + m' * b" using batch.prems(4) m' by simp
      show "i + b + m' * b \<le> k" using batch.prems(5) m' by simp
      show "j < length items" by (rule batch.prems(6))
    qed
    then show ?thesis unfolding evs tk by simp
  qed
qed

lemma enrichRun_barrier:
  assumes "enrichRun net items b 0 out evs res" "q < length evs" "evs ! q = Started k"
    and "j < length items" "j div b < k div b"
  shows "Settled j \<in> set (take q evs)"
proof -
  have b: "0 < b" using assms(5) by (cases b) auto
  have "j < 0 + (k div b) * b"
  proof -
    have "j < Suc (j div b) * b" using b by (simp add: dividend_less_times_div mult.commute)
    also have "\<dots> \<le> (k div b) * b"
    proof (rule mult_le_mono1)
      show "Suc (j div b) \<le> k div b" using assms(5) by simp
    qed
    finally show ?thesis by simp
  qed
  moreover have "0 + (k div b) * b \<le> k" by simp
  ultimately show ?thesis
    using enrichRun_barrier_from [OF assms(1-3), of j "k div b"] assms(4) by simp
qed

lemma enrichPhase_selects:
  "enrichPhase net subsetSize b list
     = map_option (\<lambda>res. mergeTracks res list) (enrichInBatches net (take subsetSize list) b)"
  by (simp add: enrichPhase_def split: option.splits)

text \<open>
  A run over three trajectories with a batch size of 2. The first two have a point and
  their wind requests end in the order 1, 0; the third has no point.
\<close>

lemma sample_run:
  "enrichRun sampleNet
     [sampleTrack ''a'' [samplePoint] None, sampleTrack ''b'' [samplePoint] None,
      sampleTrack ''c'' [] None] 2 0 []
     [Started 0, Started 1, Settled 1, Settled 0, Started 2, Settled 2]
     [Fulfilled (''a'', Patch None None), Fulfilled (''b'', Patch None None),
      Fulfilled (''c'', EmptyPatch)]"
proof -
  define items where "items = [sampleTrack ''a'' [samplePoint] None,
      sampleTrack ''b'' [samplePoint] None, sampleTrack ''c'' [] None]"
  have len: "length items = 3" by (simp add: items_def)
  have pts: "points (items ! 0) \<noteq> []" "points (items ! 1) \<noteq> []" "points (items ! 2) = []"
    by (simp_all add: items_def sampleTrack_def)
  have r0: "batchResults sampleNet items 2 0
              = [Fulfilled (''a'', Patch None None), Fulfilled (''b'', Patch None None)]"
    by (simp add: items_def batchResults_def batchAt_def enrichOne_def sampleTrack_def
        sampleNet_def fetchWinds_def withWinds_def computeRisk_def)
  have r2: "batchResults sampleNet items 2 2 = [Fulfilled (''c'', EmptyPatch)]"
    by (simp add: items_def batchResults_def batchAt_def enrichOne_def sampleTrack_def)
  have u2: "[2 ..< min (2 + 2) (length items)] = [2]"
    by (simp add: len upt_conv_Cons)
  have u0: "[0 ..< min (0 + 2) (length items)] = [0, 1]"
    by (simp add: len upt_conv_Cons)
  have f: "enrichRun sampleNet items 2 (2 + 2)
             ([Fulfilled (''a'', Patch None None), Fulfilled (''b'', Patch None None)]
              @ batchResults sampleNet items 2 2) []
             ([Fulfilled (''a'', Patch None None), Fulfilled (''b'', Patch None None)]
              @ batchResults sampleNet items 2 2)"
    by (rule enrichRun.finished) (simp add: len)
  have s2: "set [] = {k \<in> {2 ..< min (2 + 2) (length items)}. points (items ! k) \<noteq> []}"
  proof -
    have "{2 ..< min (2 + 2) (length items)} = {2}" by (auto simp: len)
    then show ?thesis using pts by simp
  qed
  have "enrichRun sampleNet items 2 2
          [Fulfilled (''a'', Patch None None), Fulfilled (''b'', Patch None None)]
          (startEvents items [2 ..< min (2 + 2) (length items)] @ map Settled [] @ [])
          ([Fulfilled (''a'', Patch None None), Fulfilled (''b'', Patch None None)]
           @ batchResults sampleNet items 2 2)"
    by (rule enrichRun.batch [OF _ _ s2 f]) (simp_all add: len)
  then have "enrichRun sampleNet items 2 2
          [Fulfilled (''a'', Patch None None), Fulfilled (''b'', Patch None None)]
          [Started 2, Settled 2]
          [Fulfilled (''a'', Patch None None), Fulfilled (''b'', Patch None None),
           Fulfilled (''c'', EmptyPatch)]"
    unfolding u2 r2 using pts by (simp add: startEvents_def)
  then have r: "enrichRun sampleNet items 2 (0 + 2) ([] @ batchResults sampleNet items 2 0)
          [Started 2, Settled 2]
          [Fulfilled (''a'', Patch None None), Fulfilled (''b'', Patch None None),
           Fulfilled (''c'', EmptyPatch)]"
    by (simp only: add_0 r0 append_Nil)
  have s0: "set [1, 0] = {k \<in> {0 ..< min (0 + 2) (length items)}. points (items ! k) \<noteq> []}"
  proof -
    have "{0 ..< min (0 + 2) (length items)} = {0, 1}" by (auto simp: len)
    then show ?thesis using pts by auto
  qed
  have "enrichRun sampleNet items 2 0 []
          (startEvents items [0 ..< min (0 + 2) (length items)] @ map Settled [1, 0]
             @ [Started 2, Settled 2])
          [Fulfilled (''a'', Patch None None), Fulfilled (''b'', Patch None None),
           Fulfilled (''c'', EmptyPatch)]"
    by (rule enrichRun.batch [OF _ _ s0 r]) (simp_all add: len)
  then have "enrichRun sampleNet items 2 0 []
          [Started 0, Started 1, Settled 1, Settled 0, Started 2, Settled 2]
          [Fulfilled (''a'', Patch None None), Fulfilled (''b'', Patch None None),
           Fulfilled (''c'', EmptyPatch)]"
    unfolding u0 using pts by (simp add: startEvents_def)
  then show ?thesis
    unfolding items_def .
qed

text \<open>
  C8 (as amended). The enrichment phase works on the first \<open>subsetSize\<close> trajectories of
  the list of the build phase. That list is in the property order of the grouped object:
  the ids that are array indices first, in ascending numeric order, then the other ids in
  insertion order; it is the insertion order when no id is an array index. With a batch
  size of at least 1 the loop ends after \<open>ceil(n / batchSize)\<close> passes over consecutive
  slices that together are the subset; every slice has \<open>batchSize\<close> items except the last,
  which has the remainder. The loop has a run; every run returns what the loop returns
  and calls the callback of each item once, in the order of the items; and in every run
  each call of an earlier slice has settled before any call of a later slice is started.
\<close>

theorem enrichment_subset_batches_barrier:
  "map tid (take subsetSize (buildList lib label nowSec grouped))
     = take subsetSize (map fst (ownEntries grouped))
   \<and> ownEntries grouped
     = sort_key (\<lambda>kv. indexValue (fst kv)) (filter (\<lambda>kv. isArrayIndex (fst kv)) grouped)
       @ filter (\<lambda>kv. \<not> isArrayIndex (fst kv)) grouped
   \<and> ((\<forall>kv \<in> set grouped. \<not> isArrayIndex (fst kv)) \<longrightarrow>
        map tid (take subsetSize (buildList lib label nowSec grouped))
          = take subsetSize (map fst grouped))
   \<and> enrichPhase net subsetSize b list
     = map_option (\<lambda>res. mergeTracks res list) (enrichInBatches net (take subsetSize list) b)
   \<and> (0 < b \<longrightarrow>
        enrichInBatches net items b
          = Some (concat (map (\<lambda>g. batchResults net items b (g * b))
                            [0 ..< (length items + b - 1) div b]))
        \<and> concat (map (\<lambda>g. batchAt items b (g * b)) [0 ..< (length items + b - 1) div b])
          = items)
   \<and> (0 < b \<and> g < (length items + b - 1) div b \<longrightarrow>
        length (batchAt items b (g * b))
          = (if Suc g < (length items + b - 1) div b then b else length items - g * b)
        \<and> 1 \<le> length (batchAt items b (g * b)) \<and> length (batchAt items b (g * b)) \<le> b)
   \<and> (0 < b \<longrightarrow> (\<exists>run result. enrichRun net items b 0 [] run result))
   \<and> (enrichRun net items b 0 [] evs res \<longrightarrow>
        enrichInBatches net items b = Some res \<and> calls evs = [0 ..< length items])
   \<and> (enrichRun net items b 0 [] evs res \<and> q < length evs \<and> evs ! q = Started k
        \<and> j < length items \<and> j div b < k div b \<longrightarrow> Settled j \<in> set (take q evs))"
proof -
  have ids: "map tid (take subsetSize (buildList lib label nowSec grouped))
     = take subsetSize (map fst (ownEntries grouped))"
    by (simp add: take_map [symmetric] buildList_ids)
  have ins: "(\<forall>kv \<in> set grouped. \<not> isArrayIndex (fst kv)) \<longrightarrow>
        map tid (take subsetSize (buildList lib label nowSec grouped))
          = take subsetSize (map fst grouped)"
    using ids ownEntries_no_index [of grouped] by auto
  have own: "ownEntries grouped
     = sort_key (\<lambda>kv. indexValue (fst kv)) (filter (\<lambda>kv. isArrayIndex (fst kv)) grouped)
       @ filter (\<lambda>kv. \<not> isArrayIndex (fst kv)) grouped"
    by (rule ownEntries_def)
  have sel: "enrichPhase net subsetSize b list
     = map_option (\<lambda>res. mergeTracks res list) (enrichInBatches net (take subsetSize list) b)"
    by (rule enrichPhase_selects)
  have pas: "0 < b \<longrightarrow>
        enrichInBatches net items b
          = Some (concat (map (\<lambda>g. batchResults net items b (g * b))
                            [0 ..< (length items + b - 1) div b]))
        \<and> concat (map (\<lambda>g. batchAt items b (g * b)) [0 ..< (length items + b - 1) div b])
          = items"
    using enrichInBatches_passes [of b net items] batchAt_concat [of b items] by blast
  have len: "0 < b \<and> g < (length items + b - 1) div b \<longrightarrow>
        length (batchAt items b (g * b))
          = (if Suc g < (length items + b - 1) div b then b else length items - g * b)
        \<and> 1 \<le> length (batchAt items b (g * b)) \<and> length (batchAt items b (g * b)) \<le> b"
    using batchAt_length [of b g items] by blast
  have ex: "0 < b \<longrightarrow> (\<exists>run result. enrichRun net items b 0 [] run result)"
    using enrichRun_exists [of b net items 0 "[]"] by blast
  have lnk: "enrichRun net items b 0 [] evs res \<longrightarrow>
        enrichInBatches net items b = Some res \<and> calls evs = [0 ..< length items]"
    using enrichRun_result [of net items b 0 "[]" evs res]
      enrichRun_calls [of net items b 0 "[]" evs res]
    by (simp add: enrichInBatches_def)
  have bar: "enrichRun net items b 0 [] evs res \<and> q < length evs \<and> evs ! q = Started k
        \<and> j < length items \<and> j div b < k div b \<longrightarrow> Settled j \<in> set (take q evs)"
    using enrichRun_barrier [of net items b "[]" evs res q k j] by blast
  show ?thesis
    by (intro conjI ids own ins sel pas len ex lnk bar)
qed

theorem enrichment_subset_batches_barrier_witness:
  "\<not> isArrayIndex ''b0'' \<and> \<not> isArrayIndex ''b1''
   \<and> map tid (take 1 (buildList sampleLib (fmtAge sampleShow sampleFix1) 1700000000
                        [(''b0'', [samplePoint]), (''b1'', [])])) = [''b0'']
   \<and> (10 + 4 - 1) div 4 = (3 :: nat)
   \<and> length (batchAt (replicate 10 (sampleTrack ''a'' [] None)) 4 (0 * 4)) = 4
   \<and> length (batchAt (replicate 10 (sampleTrack ''a'' [] None)) 4 (1 * 4)) = 4
   \<and> length (batchAt (replicate 10 (sampleTrack ''a'' [] None)) 4 (2 * 4)) = 2
   \<and> enrichRun sampleNet
       [sampleTrack ''a'' [samplePoint] None, sampleTrack ''b'' [samplePoint] None,
        sampleTrack ''c'' [] None] 2 0 []
       [Started 0, Started 1, Settled 1, Settled 0, Started 2, Settled 2]
       [Fulfilled (''a'', Patch None None), Fulfilled (''b'', Patch None None),
        Fulfilled (''c'', EmptyPatch)]
   \<and> enrichInBatches sampleNet
       [sampleTrack ''a'' [samplePoint] None, sampleTrack ''b'' [samplePoint] None,
        sampleTrack ''c'' [] None] 2
     = Some [Fulfilled (''a'', Patch None None), Fulfilled (''b'', Patch None None),
             Fulfilled (''c'', EmptyPatch)]
   \<and> calls [Started 0, Started 1, Settled 1, Settled 0, Started 2, Settled 2] = [0, 1, 2]
   \<and> [Started 0, Started 1, Settled 1, Settled 0, Started 2, Settled 2] ! 4 = Started 2
   \<and> (0 :: nat) div 2 < 2 div 2
   \<and> Settled 0 \<in> set (take 4 [Started 0, Started 1, Settled 1, Settled 0, Started 2, Settled 2])"
proof -
  note t0 = enrichment_subset_batches_barrier
    [of 1 sampleLib "fmtAge sampleShow sampleFix1" 1700000000
        "[(''b0'', [samplePoint]), (''b1'', [])]"
        sampleNet 4 "[]" "replicate 10 (sampleTrack ''a'' [] None)" 0
        "[Started 0, Started 1, Settled 1, Settled 0, Started 2, Settled 2]" "[]" 4 2 0]
  note t1 = enrichment_subset_batches_barrier
    [of 1 sampleLib "fmtAge sampleShow sampleFix1" 1700000000
        "[(''b0'', [samplePoint]), (''b1'', [])]"
        sampleNet 4 "[]" "replicate 10 (sampleTrack ''a'' [] None)" 1
        "[Started 0, Started 1, Settled 1, Settled 0, Started 2, Settled 2]" "[]" 4 2 0]
  note t2 = enrichment_subset_batches_barrier
    [of 1 sampleLib "fmtAge sampleShow sampleFix1" 1700000000
        "[(''b0'', [samplePoint]), (''b1'', [])]"
        sampleNet 4 "[]" "replicate 10 (sampleTrack ''a'' [] None)" 2
        "[Started 0, Started 1, Settled 1, Settled 0, Started 2, Settled 2]" "[]" 4 2 0]
  note r = enrichment_subset_batches_barrier
    [of 1 sampleLib "fmtAge sampleShow sampleFix1" 1700000000
        "[(''b0'', [samplePoint]), (''b1'', [])]"
        sampleNet 2 "[]"
        "[sampleTrack ''a'' [samplePoint] None, sampleTrack ''b'' [samplePoint] None,
          sampleTrack ''c'' [] None]" 0
        "[Started 0, Started 1, Settled 1, Settled 0, Started 2, Settled 2]"
        "[Fulfilled (''a'', Patch None None), Fulfilled (''b'', Patch None None),
          Fulfilled (''c'', EmptyPatch)]" 4 2 0]
  have noidx: "\<forall>kv \<in> set [(''b0'', [samplePoint]), (''b1'', [])]. \<not> isArrayIndex (fst kv)"
    by (simp add: isArrayIndex_def)
  have ids: "map tid (take 1 (buildList sampleLib (fmtAge sampleShow sampleFix1) 1700000000
                        [(''b0'', [samplePoint]), (''b1'', [])])) = [''b0'']"
    using t0 [THEN conjunct2, THEN conjunct2, THEN conjunct1] noidx by simp
  have l0: "length (batchAt (replicate 10 (sampleTrack ''a'' [] None)) 4 (0 * 4)) = 4"
    using t0 [THEN conjunct2, THEN conjunct2, THEN conjunct2, THEN conjunct2, THEN conjunct2,
              THEN conjunct1]
    by simp
  have l1: "length (batchAt (replicate 10 (sampleTrack ''a'' [] None)) 4 (1 * 4)) = 4"
    using t1 [THEN conjunct2, THEN conjunct2, THEN conjunct2, THEN conjunct2, THEN conjunct2,
              THEN conjunct1]
    by simp
  have l2: "length (batchAt (replicate 10 (sampleTrack ''a'' [] None)) 4 (2 * 4)) = 2"
    using t2 [THEN conjunct2, THEN conjunct2, THEN conjunct2, THEN conjunct2, THEN conjunct2,
              THEN conjunct1]
    by simp
  have lnk: "enrichInBatches sampleNet
       [sampleTrack ''a'' [samplePoint] None, sampleTrack ''b'' [samplePoint] None,
        sampleTrack ''c'' [] None] 2
     = Some [Fulfilled (''a'', Patch None None), Fulfilled (''b'', Patch None None),
             Fulfilled (''c'', EmptyPatch)]
     \<and> calls [Started 0, Started 1, Settled 1, Settled 0, Started 2, Settled 2] = [0, 1, 2]"
    using r [THEN conjunct2, THEN conjunct2, THEN conjunct2, THEN conjunct2, THEN conjunct2,
             THEN conjunct2, THEN conjunct2, THEN conjunct1] sample_run
    by (simp add: upt_conv_Cons)
  have bar: "Settled 0 \<in> set (take 4 [Started 0, Started 1, Settled 1, Settled 0, Started 2,
                                        Settled 2])"
    using r [THEN conjunct2, THEN conjunct2, THEN conjunct2, THEN conjunct2, THEN conjunct2,
             THEN conjunct2, THEN conjunct2, THEN conjunct2] sample_run
    by simp
  have "\<not> isArrayIndex ''b0'' \<and> \<not> isArrayIndex ''b1''"
    using noidx by simp
  then show ?thesis
    using ids l0 l1 l2 lnk bar sample_run by simp
qed

text \<open>
  C8, the claim as stated, fails on the order: the rows with ids \<open>"2"\<close> and \<open>"1"\<close> arrive in
  this order and are grouped in this order, yet the list of the build phase starts with
  \<open>"1"\<close>, and a subset of size 1 is the trajectory \<open>"1"\<close>, the second one inserted.
\<close>

theorem enrichment_subset_order_counterexample:
  "fetchLast24h sampleConv sampleShow sampleClock
      [Fulfilled (Arr [Obj [(''id'', Str ''2''), (''lat'', Num (Fin 1)), (''lon'', Num (Fin 0)),
                            (''ts'', Num (Fin 5))],
                       Obj [(''id'', Str ''1''), (''lat'', Num (Fin 2)), (''lon'', Num (Fin 0)),
                            (''ts'', Num (Fin 5))]])]
     = Inr ([(''2'', [\<lparr>lat = 1, lon = 0, ts = 5\<rparr>]), (''1'', [\<lparr>lat = 2, lon = 0, ts = 5\<rparr>])],
            \<lparr>raw = 2, kept = 2, balloons = 2\<rparr>)
   \<and> map tid (take 1 (buildList sampleLib (fmtAge sampleShow sampleFix1) 1700000000
        [(''2'', [\<lparr>lat = 1, lon = 0, ts = 5\<rparr>]), (''1'', [\<lparr>lat = 2, lon = 0, ts = 5\<rparr>])]))
     = [''1'']
   \<and> take 1 (map fst [(''2'', [\<lparr>lat = 1, lon = 0, ts = 5\<rparr>]), (''1'', [\<lparr>lat = 2, lon = 0, ts = 5\<rparr>])])
     = [''2'']"
proof -
  have a: "fetchLast24h sampleConv sampleShow sampleClock
      [Fulfilled (Arr [Obj [(''id'', Str ''2''), (''lat'', Num (Fin 1)), (''lon'', Num (Fin 0)),
                            (''ts'', Num (Fin 5))],
                       Obj [(''id'', Str ''1''), (''lat'', Num (Fin 2)), (''lon'', Num (Fin 0)),
                            (''ts'', Num (Fin 5))]])]
     = Inr ([(''2'', [\<lparr>lat = 1, lon = 0, ts = 5\<rparr>]), (''1'', [\<lparr>lat = 2, lon = 0, ts = 5\<rparr>])],
            \<lparr>raw = 2, kept = 2, balloons = 2\<rparr>)"
    by (simp add: fetchLast24h_def pushPoint_def objectProtoKeys_def sampleClock_def
        rowLat_def rowLon_def rowTs_def tsRaw_def rowId_def getProp_def coalesce_def Let_def
        sortDedupe_def)
  have b: "map tid (take 1 (buildList sampleLib (fmtAge sampleShow sampleFix1) 1700000000
        [(''2'', [\<lparr>lat = 1, lon = 0, ts = 5\<rparr>]), (''1'', [\<lparr>lat = 2, lon = 0, ts = 5\<rparr>])]))
     = [''1'']"
    by (simp add: take_map [symmetric] buildList_ids ownEntries_def isArrayIndex_def
        indexValue_def digitVal_def)
  show ?thesis
    using a b by simp
qed

end
